theory Spec2Isabelle
  imports Complex_Main
begin

section \<open>The taxi-fare package of f\_cloudmle.ipynb\<close>

text \<open>
  The notebook writes two Python files, \<open>taxifaremodel/model.py\<close> and
  \<open>taxifaremodel/task.py\<close>. Both are thin layers over TensorFlow 1.13, \<open>shutil\<close>
  and \<open>argparse\<close>. The functions of the two files are embedded below, one definition
  per Python function, under the Python names. What the libraries do is either a
  parameter of the embedding (the CSV tokenizer, the number parsers, the file system,
  the recursive deletion, the training loop) or a small model of the library's
  documented contract, named after the library function it stands for.
\<close>

subsection \<open>Values and errors\<close>

text \<open>
  A Python value as the parameter dictionary holds it: a string, an unbounded integer,
  or \<open>None\<close>.
\<close>

datatype pyval = PyStr string | PyInt int | PyNone

text \<open>
  Every exception the code can meet is a value. \<open>SystemExit\<close> is what \<open>argparse\<close>
  raises on a rejected command line (status 2); \<open>OSError\<close> is a failure of the file
  system and \<open>TrainingError\<close> a failure of the training service, both with the library's
  message.
\<close>

datatype error =
    KeyError string
  | TypeError
  | InvalidArgumentError
  | ValueError
  | SystemExit int
  | OSError string
  | TrainingError string

subsection \<open>Tensors\<close>

text \<open>
  The two element types the CSV columns use. A \<open>float32\<close> value is represented by the
  real number it stands for; rounding to 32 bits is not modelled.
\<close>

datatype dtype = DT_FLOAT | DT_INT32

datatype scalar = FloatV real | IntV int

fun dtype_of :: "scalar \<Rightarrow> dtype" where
  "dtype_of (FloatV _) = DT_FLOAT"
| "dtype_of (IntV _) = DT_INT32"

text \<open>
  TensorFlow 1.x builds a graph first and raises an op's error only when the tensor is
  evaluated. A tensor is therefore modelled by what evaluating it yields: a scalar, or
  the error of the op that computes it.
\<close>

type_synonym tensor = "error + scalar"

subsection \<open>Python dictionaries\<close>

text \<open>\<open>dict(pairs)\<close>: later pairs overwrite earlier ones with the same key.\<close>

definition dict :: "('k \<times> 'v) list \<Rightarrow> ('k \<rightharpoonup> 'v)" where
  "dict ps = foldl (\<lambda>m (k, v). m(k \<mapsto> v)) Map.empty ps"

text \<open>\<open>d.pop(k)\<close>: removes the key and returns its value, \<open>KeyError\<close> when absent.\<close>

definition pop :: "(string \<rightharpoonup> 'v) \<Rightarrow> string \<Rightarrow> error + ((string \<rightharpoonup> 'v) \<times> 'v)" where
  "pop d k = (case d k of None \<Rightarrow> Inl (KeyError k) | Some v \<Rightarrow> Inr (d(k := None), v))"

text \<open>\<open>d[k]\<close>: \<open>KeyError\<close> when the key is absent.\<close>

definition getitem :: "(string \<rightharpoonup> 'v) \<Rightarrow> string \<Rightarrow> error + 'v" where
  "getitem d k = (case d k of None \<Rightarrow> Inl (KeyError k) | Some v \<Rightarrow> Inr v)"

subsection \<open>model.py: the CSV schema\<close>

text \<open>
  A record default of \<open>tf.decode_csv\<close> is a one-element vector holding the column's
  default (\<open>[0.0]\<close>), or an empty vector of the column's type when the column is
  required.
\<close>

datatype record_default = Default scalar | Required dtype

fun default_dtype :: "record_default \<Rightarrow> dtype" where
  "default_dtype (Default v) = dtype_of v"
| "default_dtype (Required t) = t"

definition CSV_COLUMN_NAMES :: "string list" where
  "CSV_COLUMN_NAMES =
     [''fare_amount'', ''dayofweek'', ''hourofday'', ''pickuplon'', ''pickuplat'',
      ''dropofflon'', ''dropofflat'']"

definition CSV_DEFAULTS :: "record_default list" where
  "CSV_DEFAULTS =
     [Default (FloatV 0.0), Default (IntV 1), Default (IntV 0), Default (FloatV (- 74.0)),
      Default (FloatV 40.0), Default (FloatV (- 74.0)), Default (FloatV 40.7)]"

text \<open>\<open>CSV_COLUMN_NAMES[1:]\<close>\<close>

definition FEATURE_NAMES :: "string list" where
  "FEATURE_NAMES = drop 1 CSV_COLUMN_NAMES"

subsection \<open>The library op tf.decode\_csv\<close>

text \<open>
  The op's kernel splits a record into fields and converts each field. How it splits
  (delimiter, quoting) and how it reads a number are the library's business and are
  parameters here: \<open>extract_fields\<close> is \<open>None\<close> on a record the tokenizer rejects,
  \<open>strtof\<close> and \<open>strto32\<close> are \<open>None\<close> on text that is no number of the type.
\<close>

record csv_kernel =
  extract_fields :: "string \<Rightarrow> string list option"
  strtof :: "string \<Rightarrow> real option"
  strto32 :: "string \<Rightarrow> int option"

text \<open>
  One field against its record default, as the op documents it: an empty field takes the
  default, or is an error when the column is required; any other field is converted to
  the type of the default.
\<close>

definition decode_field :: "csv_kernel \<Rightarrow> record_default \<Rightarrow> string \<Rightarrow> error + scalar" where
  "decode_field kern d f =
     (if f = []
      then (case d of Default v \<Rightarrow> Inr v | Required _ \<Rightarrow> Inl InvalidArgumentError)
      else (case default_dtype d of
              DT_FLOAT \<Rightarrow>
                (case strtof kern f of None \<Rightarrow> Inl InvalidArgumentError
                 | Some x \<Rightarrow> Inr (FloatV x))
            | DT_INT32 \<Rightarrow>
                (case strto32 kern f of None \<Rightarrow> Inl InvalidArgumentError
                 | Some n \<Rightarrow> Inr (IntV n))))"

text \<open>The first error of a list of results, or all the values.\<close>

fun collect :: "(error + 'a) list \<Rightarrow> error + 'a list" where
  "collect [] = Inr []"
| "collect (Inl e # _) = Inl e"
| "collect (Inr v # rs) = (case collect rs of Inl e \<Rightarrow> Inl e | Inr vs \<Rightarrow> Inr (v # vs))"

text \<open>
  One record: the op fails when the record does not tokenize, when it has not one field
  per record default, or when a field fails.
\<close>

definition decode_record :: "csv_kernel \<Rightarrow> string \<Rightarrow> record_default list \<Rightarrow> error + scalar list" where
  "decode_record kern records record_defaults =
     (case extract_fields kern records of
        None \<Rightarrow> Inl InvalidArgumentError
      | Some fs \<Rightarrow>
          if length fs \<noteq> length record_defaults then Inl InvalidArgumentError
          else collect (map (\<lambda>(d, f). decode_field kern d f) (zip record_defaults fs)))"

text \<open>
  \<open>tf.decode_csv(records, record_defaults)\<close> returns one tensor per record default,
  whatever the record is: output \<open>i\<close> evaluates to column \<open>i\<close> of the decoded record, or
  to the op's error.
\<close>

definition decode_csv :: "csv_kernel \<Rightarrow> string \<Rightarrow> record_default list \<Rightarrow> tensor list" where
  "decode_csv kern records record_defaults =
     map (\<lambda>i. case decode_record kern records record_defaults of
                 Inl e \<Rightarrow> Inl e | Inr vs \<Rightarrow> Inr (vs ! i))
         [0 ..< length record_defaults]"

subsection \<open>model.py: parse\_row and read\_dataset\<close>

definition parse_row :: "csv_kernel \<Rightarrow> string \<Rightarrow> error + ((string \<rightharpoonup> tensor) \<times> tensor)" where
  "parse_row kern row =
     (let fields = decode_csv kern row CSV_DEFAULTS;
          features = dict (zip CSV_COLUMN_NAMES fields)
      in case pop features ''fare_amount'' of
           Inl e \<Rightarrow> Inl e
         | Inr (features', label) \<Rightarrow> Inr (features', label))"

text \<open>
  The files the datasets read from: \<open>matching_files\<close> gives the file names a glob
  matches, in the order the file-name dataset yields them (TensorFlow shuffles them),
  and \<open>text_lines\<close> the lines of a file.
\<close>

record file_system =
  matching_files :: "string \<Rightarrow> string list"
  text_lines :: "string \<Rightarrow> string list"

text \<open>
  A finite dataset is modelled by what a pass over it yields: the list of its elements
  in iteration order, or the error the pass stops with.
\<close>

type_synonym 'a dataset = "error + 'a list"

text \<open>\<open>tf.data.Dataset.list_files\<close> asserts that the pattern matches a file.\<close>

definition list_files :: "file_system \<Rightarrow> string \<Rightarrow> string dataset" where
  "list_files fs file_pattern =
     (if matching_files fs file_pattern = [] then Inl InvalidArgumentError
      else Inr (matching_files fs file_pattern))"

definition TextLineDataset :: "file_system \<Rightarrow> string \<Rightarrow> string dataset" where
  "TextLineDataset fs filenames = Inr (text_lines fs filenames)"

definition skip :: "nat \<Rightarrow> 'a dataset \<Rightarrow> 'a dataset" where
  "skip count ds = (case ds of Inl e \<Rightarrow> Inl e | Inr xs \<Rightarrow> Inr (drop count xs))"

definition flat_map :: "('a \<Rightarrow> 'b dataset) \<Rightarrow> 'a dataset \<Rightarrow> 'b dataset" where
  "flat_map f ds =
     (case ds of
        Inl e \<Rightarrow> Inl e
      | Inr xs \<Rightarrow> (case collect (map f xs) of Inl e \<Rightarrow> Inl e | Inr xss \<Rightarrow> Inr (concat xss)))"

text \<open>\<open>dataset.map(map_func)\<close>: an exception of \<open>map_func\<close> is the exception of the call.\<close>

definition map_dataset :: "('a \<Rightarrow> error + 'b) \<Rightarrow> 'a dataset \<Rightarrow> 'b dataset" where
  "map_dataset map_func ds =
     (case ds of Inl e \<Rightarrow> Inl e | Inr xs \<Rightarrow> collect (map map_func xs))"

definition read_dataset ::
  "file_system \<Rightarrow> csv_kernel \<Rightarrow> string \<Rightarrow> ((string \<rightharpoonup> tensor) \<times> tensor) dataset" where
  "read_dataset fs kern csv_path =
     (let dataset = list_files fs csv_path;
          dataset = flat_map (\<lambda>filename. skip 1 (TextLineDataset fs filename)) dataset
      in map_dataset (parse_row kern) dataset)"

text \<open>
  The two input functions are passed to the estimator as closures over a path; the
  closure is kept as data (the path and the batch size, 128 by default).
\<close>

datatype input_fn = train_input_fn pyval nat | eval_input_fn pyval nat

subsection \<open>model.py: serving\_input\_receiver\_fn\<close>

text \<open>A placeholder: its element type and its shape (\<open>None\<close> is an unknown dimension).\<close>

record placeholder =
  ph_dtype :: dtype
  ph_shape :: "nat option list"

record serving_input_receiver =
  sir_features :: "string \<rightharpoonup> placeholder"
  sir_receiver_tensors :: "string \<rightharpoonup> placeholder"

definition serving_input_receiver_fn :: serving_input_receiver where
  "serving_input_receiver_fn =
     (let receiver_tensors = dict
            [(''dayofweek'', \<lparr>ph_dtype = DT_INT32, ph_shape = [None]\<rparr>),
             (''hourofday'', \<lparr>ph_dtype = DT_INT32, ph_shape = [None]\<rparr>),
             (''pickuplon'', \<lparr>ph_dtype = DT_FLOAT, ph_shape = [None]\<rparr>),
             (''pickuplat'', \<lparr>ph_dtype = DT_FLOAT, ph_shape = [None]\<rparr>),
             (''dropofflat'', \<lparr>ph_dtype = DT_FLOAT, ph_shape = [None]\<rparr>),
             (''dropofflon'', \<lparr>ph_dtype = DT_FLOAT, ph_shape = [None]\<rparr>)];
          features = receiver_tensors
      in \<lparr>sir_features = features, sir_receiver_tensors = receiver_tensors\<rparr>)"

subsection \<open>model.py: my\_rmse\<close>

text \<open>
  The metric is computed from the labels of an evaluation, a vector, and the
  predictions of the regressor, a matrix with one row per label. Both are lists of
  reals.

  \<open>tf.squeeze(input, axis = -1)\<close> removes the last dimension, which must have size 1.
\<close>

definition squeeze :: "real list list \<Rightarrow> error + real list" where
  "squeeze input =
     (if list_all (\<lambda>r. length r = 1) input then Inr (map hd input)
      else Inl InvalidArgumentError)"

text \<open>
  \<open>tf.metrics.root_mean_squared_error(labels, predictions)\<close> over one evaluation: the
  square root of the mean of the squared differences (0 over no element). Both vectors
  come from the same examples; vectors of different lengths are an error here (the
  library's broadcasting of a one-element vector is not modelled).
\<close>

definition root_mean_squared_error :: "real list \<Rightarrow> real list \<Rightarrow> error + real" where
  "root_mean_squared_error labels predictions =
     (if length labels \<noteq> length predictions then Inl InvalidArgumentError
      else Inr (sqrt (sum_list (map (\<lambda>(l, p). (l - p)\<^sup>2) (zip labels predictions))
                      / real (length labels))))"

type_synonym metric_fn = "real list \<Rightarrow> (string \<rightharpoonup> real list list) \<Rightarrow> error + (string \<rightharpoonup> real)"

definition my_rmse :: metric_fn where
  "my_rmse labels predictions =
     (case getitem predictions ''predictions'' of
        Inl e \<Rightarrow> Inl e
      | Inr p \<Rightarrow>
          (case squeeze p of
             Inl e \<Rightarrow> Inl e
           | Inr pred_values \<Rightarrow>
               (case root_mean_squared_error labels pred_values of
                  Inl e \<Rightarrow> Inl e
                | Inr v \<Rightarrow> Inr (dict [(''rmse'', v)]))))"

subsection \<open>model.py: create\_model\<close>

record run_config =
  tf_random_seed :: int
  save_checkpoints_steps :: int
  model_dir :: pyval

datatype feature_column = numeric_column string

text \<open>
  An estimator as the code configures it: the sizes of the hidden layers, the feature
  columns, the run configuration, and the metric functions added to it (the metrics a
  regressor reports by itself are not listed).
\<close>

record estimator =
  hidden_units :: "nat list"
  feature_columns :: "feature_column list"
  config :: run_config
  added_metrics :: "metric_fn list"

definition DNNRegressor :: "nat list \<Rightarrow> feature_column list \<Rightarrow> run_config \<Rightarrow> estimator" where
  "DNNRegressor hu fc cfg =
     \<lparr>hidden_units = hu, feature_columns = fc, config = cfg, added_metrics = []\<rparr>"

definition add_metrics :: "estimator \<Rightarrow> metric_fn \<Rightarrow> estimator" where
  "add_metrics est f = est\<lparr>added_metrics := added_metrics est @ [f]\<rparr>"

text \<open>
  The constructor of \<open>tf.estimator.RunConfig\<close> validates its arguments: it raises
  \<open>ValueError\<close> for the empty string as model directory (\<open>None\<close> is allowed) and for a
  negative checkpoint interval. It stores \<open>model_dir or None\<close>, so the integer 0, which
  Python counts as false, is stored as \<open>None\<close>. The environment variable \<open>TF_CONFIG\<close>,
  which can name a model directory of its own, is taken not to name one.
\<close>

definition RunConfig :: "int \<Rightarrow> int \<Rightarrow> pyval \<Rightarrow> error + run_config" where
  "RunConfig seed steps mdir =
     (if mdir = PyStr [] \<or> steps < 0 then Inl ValueError
      else Inr \<lparr>tf_random_seed = seed, save_checkpoints_steps = steps,
                model_dir = (if mdir = PyInt 0 then PyNone else mdir)\<rparr>)"

text \<open>
  \<open>train_steps // 10\<close> is Python's floor division on unbounded integers, and a
  \<open>TypeError\<close> on a string or \<open>None\<close>; it is evaluated before \<open>RunConfig\<close> is called.
\<close>

definition create_model :: "pyval \<Rightarrow> pyval \<Rightarrow> error + estimator" where
  "create_model mdir train_steps =
     (case train_steps of
        PyInt n \<Rightarrow>
          (case RunConfig 1 (max 10 (n div 10)) mdir of
             Inl e \<Rightarrow> Inl e
           | Inr cfg \<Rightarrow>
               (let feature_cols = map (\<lambda>k. numeric_column k) FEATURE_NAMES;
                    model = DNNRegressor [10, 10] feature_cols cfg;
                    model = add_metrics model my_rmse
                in Inr model))
      | _ \<Rightarrow> Inl TypeError)"

subsection \<open>model.py: train\_and\_evaluate\<close>

record train_spec =
  ts_input_fn :: input_fn
  ts_max_steps :: pyval

text \<open>
  The constructor of \<open>tf.estimator.TrainSpec\<close> rejects a number of steps that is not
  positive.
\<close>

definition TrainSpec :: "input_fn \<Rightarrow> pyval \<Rightarrow> error + train_spec" where
  "TrainSpec f max_steps =
     (case max_steps of
        PyInt n \<Rightarrow>
          if n \<le> 0 then Inl ValueError
          else Inr \<lparr>ts_input_fn = f, ts_max_steps = max_steps\<rparr>
      | PyNone \<Rightarrow> Inr \<lparr>ts_input_fn = f, ts_max_steps = max_steps\<rparr>
      | PyStr _ \<Rightarrow> Inl TypeError)"

record final_exporter =
  fe_name :: string
  fe_serving_input_receiver_fn :: serving_input_receiver

record eval_spec =
  es_input_fn :: input_fn
  es_steps :: pyval
  es_start_delay_secs :: int
  es_throttle_secs :: int
  es_exporters :: final_exporter

datatype log_level = DEBUG | INFO | WARN | ERROR | FATAL

text \<open>
  The effects of the library calls, on a world \<open>'w\<close> (the file systems, the logger, the
  training service):
  \<^item> \<open>set_verbosity\<close> is \<open>tf.logging.set_verbosity\<close>;
  \<^item> \<open>remove_tree\<close> is the recursive deletion \<open>shutil.rmtree\<close> performs: the world it
    leaves, and the error it met, if any;
  \<^item> \<open>estimator_train_and_evaluate\<close> is \<open>tf.estimator.train_and_evaluate\<close>.
\<close>

record 'w library =
  set_verbosity :: "log_level \<Rightarrow> 'w \<Rightarrow> 'w"
  remove_tree :: "pyval \<Rightarrow> 'w \<Rightarrow> error option \<times> 'w"
  estimator_train_and_evaluate :: "estimator \<Rightarrow> train_spec \<Rightarrow> eval_spec \<Rightarrow> 'w \<Rightarrow> error + 'w"

text \<open>
  \<open>shutil.rmtree(path, ignore_errors)\<close>: with \<open>ignore_errors\<close> an error of the deletion
  is dropped and the call returns normally; without, it is raised.
\<close>

definition rmtree :: "'w library \<Rightarrow> pyval \<Rightarrow> bool \<Rightarrow> 'w \<Rightarrow> error + 'w" where
  "rmtree lib path ignore_errors w =
     (case remove_tree lib path w of
        (None, w') \<Rightarrow> Inr w'
      | (Some e, w') \<Rightarrow> if ignore_errors then Inr w' else Inl e)"

definition train_and_evaluate :: "'w library \<Rightarrow> (string \<rightharpoonup> pyval) \<Rightarrow> 'w \<Rightarrow> error + 'w" where
  "train_and_evaluate lib params w =
     (case getitem params ''output_dir'' of Inl e \<Rightarrow> Inl e | Inr OUTDIR \<Rightarrow>
     (case getitem params ''train_data_path'' of Inl e \<Rightarrow> Inl e | Inr TRAIN_DATA_PATH \<Rightarrow>
     (case getitem params ''eval_data_path'' of Inl e \<Rightarrow> Inl e | Inr EVAL_DATA_PATH \<Rightarrow>
     (case getitem params ''train_steps'' of Inl e \<Rightarrow> Inl e | Inr TRAIN_STEPS \<Rightarrow>
     (case create_model OUTDIR TRAIN_STEPS of Inl e \<Rightarrow> Inl e | Inr model \<Rightarrow>
     (case TrainSpec (train_input_fn TRAIN_DATA_PATH 128) TRAIN_STEPS of
        Inl e \<Rightarrow> Inl e
      | Inr tspec \<Rightarrow>
          (let exporter = \<lparr>fe_name = ''exporter'',
                           fe_serving_input_receiver_fn = serving_input_receiver_fn\<rparr>;
               espec = \<lparr>es_input_fn = eval_input_fn EVAL_DATA_PATH 128,
                        es_steps = PyNone,
                        es_start_delay_secs = 1,
                        es_throttle_secs = 1,
                        es_exporters = exporter\<rparr>;
               w1 = set_verbosity lib INFO w
           in (case rmtree lib OUTDIR True w1 of
                 Inl e \<Rightarrow> Inl e
               | Inr w2 \<Rightarrow> estimator_train_and_evaluate lib model tspec espec w2))))))))"

subsection \<open>task.py\<close>

text \<open>
  An argument of the parser: its option string, the key it is stored under, whether it
  is required, the conversion of its value (\<open>type = int\<close>, or none) and its default.
\<close>

datatype arg_type = as_str | as_int

record argument =
  option_string :: string
  dest :: string
  required :: bool
  conversion :: arg_type
  default_value :: pyval

text \<open>
  \<open>argparse\<close> derives the key from the option string: the leading dashes are dropped and
  every other dash becomes an underscore.
\<close>

definition add_argument :: "string \<Rightarrow> bool \<Rightarrow> arg_type \<Rightarrow> pyval \<Rightarrow> argument" where
  "add_argument opt req ty dflt =
     \<lparr>option_string = opt,
      dest = map (\<lambda>c. if c = CHR ''-'' then CHR ''_'' else c) (dropWhile (\<lambda>c. c = CHR ''-'') opt),
      required = req,
      conversion = ty,
      default_value = dflt\<rparr>"

definition parser :: "argument list" where
  "parser =
     [add_argument ''--train_data_path'' True as_str PyNone,
      add_argument ''--train_steps'' False as_int (PyInt 1000),
      add_argument ''--eval_data_path'' True as_str PyNone,
      add_argument ''--output_dir'' True as_str PyNone,
      add_argument ''--job-dir'' False as_str PyNone]"

text \<open>
  What \<open>argparse\<close> and Python do with text is a parameter: \<open>scan_args\<close> reads the command
  line against the option strings of the parser and gives the options it found, each
  with its value, in order, or the exit the library takes on a command line it rejects;
  \<open>py_int\<close> is Python's \<open>int\<close> on a string.
\<close>

record argparse_lib =
  scan_args :: "string list \<Rightarrow> string list \<Rightarrow> error + (string \<times> string) list"
  py_int :: "string \<Rightarrow> int option"

definition convert :: "argparse_lib \<Rightarrow> arg_type \<Rightarrow> string \<Rightarrow> error + pyval" where
  "convert lib ty s =
     (case ty of
        as_str \<Rightarrow> Inr (PyStr s)
      | as_int \<Rightarrow> (case py_int lib s of None \<Rightarrow> Inl (SystemExit 2) | Some n \<Rightarrow> Inr (PyInt n)))"

text \<open>
  The value of one argument: the converted value of its last occurrence; without an
  occurrence the default, or the exit with status 2 when the argument is required.
\<close>

definition arg_value :: "argparse_lib \<Rightarrow> (string \<times> string) list \<Rightarrow> argument \<Rightarrow> error + pyval" where
  "arg_value lib occ a =
     (case filter (\<lambda>(opt, v). opt = option_string a) occ of
        [] \<Rightarrow> if required a then Inl (SystemExit 2) else Inr (default_value a)
      | x # xs \<Rightarrow> convert lib (conversion a) (snd (last (x # xs))))"

text \<open>\<open>parser.parse_args().__dict__\<close>: one key per argument of the parser.\<close>

definition parse_args :: "argparse_lib \<Rightarrow> argument list \<Rightarrow> string list \<Rightarrow> error + (string \<rightharpoonup> pyval)" where
  "parse_args lib p argv =
     (case scan_args lib (map option_string p) argv of
        Inl e \<Rightarrow> Inl e
      | Inr occ \<Rightarrow>
          (case collect (map (arg_value lib occ) p) of
             Inl e \<Rightarrow> Inl e
           | Inr vs \<Rightarrow> Inr (dict (zip (map dest p) vs))))"

text \<open>The body of \<open>task.py\<close>, run as the main module with the command line \<open>argv\<close>.\<close>

definition main :: "argparse_lib \<Rightarrow> 'w library \<Rightarrow> string list \<Rightarrow> 'w \<Rightarrow> error + 'w" where
  "main alib lib argv w =
     (case parse_args alib parser argv of
        Inl e \<Rightarrow> Inl e
      | Inr args \<Rightarrow> train_and_evaluate lib args w)"

subsection \<open>What the statements below refer to\<close>

text \<open>
  Column \<open>i\<close> of a row as \<open>tf.decode_csv\<close> parses it under \<open>CSV_DEFAULTS\<close>: the value
  of the column, or the error of the op.
\<close>

definition parsed_column :: "csv_kernel \<Rightarrow> string \<Rightarrow> nat \<Rightarrow> tensor" where
  "parsed_column kern row i =
     (case decode_record kern row CSV_DEFAULTS of Inl e \<Rightarrow> Inl e | Inr vs \<Rightarrow> Inr (vs ! i))"

text \<open>
  The root mean squared error of a vector of values against a vector of labels, written
  with indices: the square root of the mean of the squared differences.
\<close>

definition rmse :: "real list \<Rightarrow> real list \<Rightarrow> real" where
  "rmse labels pred_values =
     sqrt ((\<Sum>i < length labels. (labels ! i - pred_values ! i)\<^sup>2) / real (length labels))"

subsection \<open>A reference instance of the libraries\<close>

text \<open>
  The theorems below hold for every tokenizer, number parser, file system and training
  service. To run the embedding on concrete inputs, here is one instance of each: a
  tokenizer that splits at commas, decimal number parsers, an argument scanner for
  command lines of the form \<open>--option=value\<close>, and a local disk.
\<close>

fun comma_fields :: "string \<Rightarrow> string list" where
  "comma_fields [] = [[]]"
| "comma_fields (c # cs) =
     (if c = CHR '','' then [] # comma_fields cs
      else (case comma_fields cs of [] \<Rightarrow> [[c]] | f # fs \<Rightarrow> (c # f) # fs))"

definition digit :: "char \<Rightarrow> nat option" where
  "digit c = (let n = (of_char c :: nat) in if 48 \<le> n \<and> n \<le> 57 then Some (n - 48) else None)"

fun digits_value :: "nat \<Rightarrow> string \<Rightarrow> nat option" where
  "digits_value acc [] = Some acc"
| "digits_value acc (c # cs) =
     (case digit c of None \<Rightarrow> None | Some d \<Rightarrow> digits_value (10 * acc + d) cs)"

definition decimal_nat :: "string \<Rightarrow> nat option" where
  "decimal_nat s = (if s = [] then None else digits_value 0 s)"

definition decimal_int :: "string \<Rightarrow> int option" where
  "decimal_int s =
     (case s of
        [] \<Rightarrow> None
      | c # r \<Rightarrow> if c = CHR ''-'' then map_option (\<lambda>n. - int n) (decimal_nat r)
                 else map_option int (decimal_nat s))"

definition decimal_real :: "string \<Rightarrow> real option" where
  "decimal_real s =
     (let neg = (take 1 s = ''-'');
          body = (if neg then drop 1 s else s);
          ip = takeWhile (\<lambda>c. c \<noteq> CHR ''.'') body;
          fp = drop 1 (dropWhile (\<lambda>c. c \<noteq> CHR ''.'') body)
      in case (decimal_nat ip, if fp = [] then Some 0 else decimal_nat fp) of
           (Some a, Some b) \<Rightarrow>
             Some ((if neg then - 1 else 1) * (real a + real b / 10 ^ length fp))
         | _ \<Rightarrow> None)"

definition plain_kernel :: csv_kernel where
  "plain_kernel =
     \<lparr>extract_fields = (\<lambda>r. Some (comma_fields r)),
      strtof = decimal_real,
      strto32 = decimal_int\<rparr>"

text \<open>Two CSV files, each with a header line, matched by one glob.\<close>

definition taxi_files :: file_system where
  "taxi_files =
     \<lparr>matching_files = (\<lambda>pat.
        if pat = ''taxi-*.csv'' then [''taxi-valid.csv'', ''taxi-train.csv''] else []),
      text_lines = (\<lambda>f.
        if f = ''taxi-train.csv''
        then [''fare_amount,dayofweek,hourofday,pickuplon,pickuplat,dropofflon,dropofflat'',
              ''12.5,,17,-73.98,40.75,-73.97,'',
              ''6,3,8,-73.99,40.72,-73.95,40.78'']
        else if f = ''taxi-valid.csv''
        then [''fare_amount,dayofweek,hourofday,pickuplon,pickuplat,dropofflon,dropofflat'',
              ''9.3,5,23,-74.01,40.71,-73.98,40.76'']
        else [])\<rparr>"

fun equals_scan :: "string list \<Rightarrow> string list \<Rightarrow> error + (string \<times> string) list" where
  "equals_scan opts [] = Inr []"
| "equals_scan opts (a # as) =
     (let opt = takeWhile (\<lambda>c. c \<noteq> CHR ''='') a;
          v = drop 1 (dropWhile (\<lambda>c. c \<noteq> CHR ''='') a)
      in if opt \<in> set opts \<and> CHR ''='' \<in> set a
         then (case equals_scan opts as of Inl e \<Rightarrow> Inl e | Inr occ \<Rightarrow> Inr ((opt, v) # occ))
         else Inl (SystemExit 2))"

definition plain_argparse :: argparse_lib where
  "plain_argparse = \<lparr>scan_args = equals_scan, py_int = decimal_int\<rparr>"

text \<open>
  A local disk: the directories present, those among them that cannot be deleted, the
  data files present, the log level, and the directories that were present when the
  last training started. Deleting a directory that is absent or cannot be deleted is an
  error and changes nothing; training fails when its training file is absent, and
  otherwise notes the directories it starts with and creates its model directory.
\<close>

record disk =
  dirs :: "string list"
  locked :: "string list"
  files :: "string list"
  verbosity :: log_level
  at_start :: "string list"

definition local_library :: "disk library" where
  "local_library =
     \<lparr>set_verbosity = (\<lambda>l w. w\<lparr>verbosity := l\<rparr>),
      remove_tree = (\<lambda>path w.
        case path of
          PyStr p \<Rightarrow>
            if p \<in> set (dirs w)
            then (if p \<in> set (locked w) then (Some (OSError ''Permission denied''), w)
                  else (None, w\<lparr>dirs := removeAll p (dirs w)\<rparr>))
            else (Some (OSError ''No such file or directory''), w)
        | _ \<Rightarrow> (Some TypeError, w)),
      estimator_train_and_evaluate = (\<lambda>est tspec espec w.
        case (model_dir (config est), ts_input_fn tspec) of
          (PyStr d, train_input_fn (PyStr f) _) \<Rightarrow>
            if f \<in> set (files w)
            then Inr (w\<lparr>at_start := dirs w, dirs := d # removeAll d (dirs w)\<rparr>)
            else Inl (TrainingError ''File not found'')
        | _ \<Rightarrow> Inl TypeError)\<rparr>"

text \<open>The command line of the notebook's local run, and the dictionary it parses to.\<close>

definition local_argv :: "string list" where
  "local_argv =
     [''--train_data_path=taxi-train.csv'', ''--eval_data_path=taxi-valid.csv'',
      ''--train_steps=1'', ''--output_dir=taxi_trained'']"

definition local_params :: "string \<rightharpoonup> pyval" where
  "local_params =
     [''train_data_path'' \<mapsto> PyStr ''taxi-train.csv'',
      ''train_steps'' \<mapsto> PyInt 1,
      ''eval_data_path'' \<mapsto> PyStr ''taxi-valid.csv'',
      ''output_dir'' \<mapsto> PyStr ''taxi_trained'',
      ''job_dir'' \<mapsto> PyNone]"

text \<open>
  Four disks: one without the output directory, one where the output directory is left
  from an earlier run and can be deleted, one where it is left and cannot be deleted,
  and one without any data file.
\<close>

definition fresh_disk :: disk where
  "fresh_disk = \<lparr>dirs = [], locked = [], files = [''taxi-train.csv'', ''taxi-valid.csv''],
                 verbosity = WARN, at_start = []\<rparr>"

definition stale_disk :: disk where
  "stale_disk = \<lparr>dirs = [''taxi_trained''], locked = [],
                 files = [''taxi-train.csv'', ''taxi-valid.csv''],
                 verbosity = WARN, at_start = []\<rparr>"

definition locked_disk :: disk where
  "locked_disk = \<lparr>dirs = [''taxi_trained''], locked = [''taxi_trained''],
                  files = [''taxi-train.csv'', ''taxi-valid.csv''],
                  verbosity = WARN, at_start = []\<rparr>"

definition empty_disk :: disk where
  "empty_disk = \<lparr>dirs = [], locked = [], files = [], verbosity = WARN, at_start = []\<rparr>"

section \<open>Properties\<close>

subsection \<open>Auxiliary facts\<close>

lemma collect_Inr: "collect rs = Inr vs \<Longrightarrow> rs = map Inr vs"
proof (induction rs arbitrary: vs rule: collect.induct)
  case 1
  then show ?case by simp
next
  case (2 e rs)
  then show ?case by simp
next
  case (3 v rs)
  then show ?case by (auto split: sum.splits)
qed

lemma collect_map_Inr: "collect (map Inr vs) = Inr vs"
  by (induction vs) auto

lemma collect_Inl: "collect rs = Inl e \<Longrightarrow> Inl e \<in> set rs"
  by (induction rs rule: collect.induct) (auto split: sum.splits)

lemma collect_has_error: "Inl e \<in> set rs \<Longrightarrow> \<exists>e'. collect rs = Inl e'"
  by (induction rs rule: collect.induct) (auto split: sum.splits)

lemma dom_dict_foldl:
  "dom (foldl (\<lambda>m (k, v). m(k \<mapsto> v)) m ps) = dom m \<union> fst ` set ps"
  by (induction ps arbitrary: m) (auto split: prod.splits)

lemma dom_dict: "dom (dict ps) = fst ` set ps"
  by (simp add: dict_def dom_dict_foldl)

lemma length7: "length xs = 7 \<Longrightarrow> \<exists>a b c d e f g. xs = [a, b, c, d, e, f, g]"
  by (auto simp: length_Suc_conv eval_nat_numeral)

lemmas kernel_simps =
  decode_record_def plain_kernel_def CSV_DEFAULTS_def decode_field_def
  decimal_real_def decimal_int_def decimal_nat_def digit_def

lemmas run_simps =
  train_and_evaluate_def getitem_def create_model_def RunConfig_def TrainSpec_def
  rmtree_def local_library_def DNNRegressor_def add_metrics_def

subsection \<open>parse\_row\<close>

lemma decode_csv_columns:
  "decode_csv kern row CSV_DEFAULTS = map (parsed_column kern row) [0, 1, 2, 3, 4, 5, 6]"
proof -
  have "[0 ..< length CSV_DEFAULTS] = [0, 1, 2, 3, 4, 5, 6]"
    by (simp add: CSV_DEFAULTS_def upt_rec)
  then show ?thesis
    unfolding decode_csv_def parsed_column_def by simp
qed

lemma parse_row_eq:
  "parse_row kern row =
     Inr ([''dayofweek'' \<mapsto> parsed_column kern row 1,
           ''hourofday'' \<mapsto> parsed_column kern row 2,
           ''pickuplon'' \<mapsto> parsed_column kern row 3,
           ''pickuplat'' \<mapsto> parsed_column kern row 4,
           ''dropofflon'' \<mapsto> parsed_column kern row 5,
           ''dropofflat'' \<mapsto> parsed_column kern row 6],
          parsed_column kern row 0)"
  unfolding parse_row_def decode_csv_columns
  by (simp add: CSV_COLUMN_NAMES_def dict_def pop_def fun_eq_iff)

text \<open>
  Claim C1. For every CSV row string, \<open>parse_row\<close> returns a pair of features and label.
  The label is the parsed value of the \<open>fare_amount\<close> column (column 0). The features
  are a dictionary whose keys are exactly the six other columns, each mapped to its
  parsed field, and \<open>fare_amount\<close> is not among the keys. On a row the decoder rejects
  the pair is returned all the same, and its tensors carry the decoder's error.
\<close>

theorem parse_row_features_label:
  "\<exists>features label.
     parse_row kern row = Inr (features, label)
     \<and> label = parsed_column kern row 0
     \<and> dom features = {''dayofweek'', ''hourofday'', ''pickuplon'', ''pickuplat'',
                        ''dropofflon'', ''dropofflat''}
     \<and> features ''dayofweek'' = Some (parsed_column kern row 1)
     \<and> features ''hourofday'' = Some (parsed_column kern row 2)
     \<and> features ''pickuplon'' = Some (parsed_column kern row 3)
     \<and> features ''pickuplat'' = Some (parsed_column kern row 4)
     \<and> features ''dropofflon'' = Some (parsed_column kern row 5)
     \<and> features ''dropofflat'' = Some (parsed_column kern row 6)
     \<and> features ''fare_amount'' = None"
  unfolding parse_row_eq by auto

subsection \<open>The CSV schema and its defaults\<close>

lemma decode_record_Inr:
  assumes "decode_record kern row ds = Inr vs"
  shows "\<exists>fs. extract_fields kern row = Some fs \<and> length fs = length ds
           \<and> map (\<lambda>(d, f). decode_field kern d f) (zip ds fs) = map Inr vs"
  using assms unfolding decode_record_def
  by (auto split: option.splits if_splits dest: collect_Inr)

lemma decode_field_dtype:
  "decode_field kern (Default u) f = Inr v \<Longrightarrow> dtype_of v = dtype_of u"
  unfolding decode_field_def
  by (auto split: if_splits option.splits dtype.splits)

lemma decode_field_empty: "decode_field kern (Default v) [] = Inr v"
  by (simp add: decode_field_def)

lemma decode_record_CSV:
  assumes "decode_record kern row CSV_DEFAULTS = Inr vs"
  shows "\<exists>f0 f1 f2 f3 f4 f5 f6 v0 v1 v2 v3 v4 v5 v6.
           extract_fields kern row = Some [f0, f1, f2, f3, f4, f5, f6]
         \<and> vs = [v0, v1, v2, v3, v4, v5, v6]
         \<and> decode_field kern (Default (FloatV 0)) f0 = Inr v0
         \<and> decode_field kern (Default (IntV 1)) f1 = Inr v1
         \<and> decode_field kern (Default (IntV 0)) f2 = Inr v2
         \<and> decode_field kern (Default (FloatV (- 74))) f3 = Inr v3
         \<and> decode_field kern (Default (FloatV 40)) f4 = Inr v4
         \<and> decode_field kern (Default (FloatV (- 74))) f5 = Inr v5
         \<and> decode_field kern (Default (FloatV 40.7)) f6 = Inr v6"
proof -
  from decode_record_Inr [OF assms] obtain fs where
    fs: "extract_fields kern row = Some fs" "length fs = length CSV_DEFAULTS"
    and m: "map (\<lambda>(d, f). decode_field kern d f) (zip CSV_DEFAULTS fs) = map Inr vs"
    by blast
  from fs(2) have l: "length fs = 7" by (simp add: CSV_DEFAULTS_def)
  then obtain f0 f1 f2 f3 f4 f5 f6 where fs7: "fs = [f0, f1, f2, f3, f4, f5, f6]"
    using length7 by blast
  have "length (map (\<lambda>(d, f). decode_field kern d f) (zip CSV_DEFAULTS fs)) = 7"
    using l by (simp add: CSV_DEFAULTS_def)
  with m have "length vs = 7" by simp
  then obtain v0 v1 v2 v3 v4 v5 v6 where vs7: "vs = [v0, v1, v2, v3, v4, v5, v6]"
    using length7 by blast
  from m show ?thesis
    unfolding fs7 vs7 using fs(1) fs7 by (simp add: CSV_DEFAULTS_def)
qed

lemma decode_record_dtypes:
  assumes "decode_record kern row CSV_DEFAULTS = Inr vs"
  shows "map dtype_of vs = [DT_FLOAT, DT_INT32, DT_INT32, DT_FLOAT, DT_FLOAT, DT_FLOAT, DT_FLOAT]"
proof -
  from decode_record_CSV [OF assms] obtain f0 f1 f2 f3 f4 f5 f6 v0 v1 v2 v3 v4 v5 v6 where
    vs: "vs = [v0, v1, v2, v3, v4, v5, v6]"
    and d: "decode_field kern (Default (FloatV 0)) f0 = Inr v0"
      "decode_field kern (Default (IntV 1)) f1 = Inr v1"
      "decode_field kern (Default (IntV 0)) f2 = Inr v2"
      "decode_field kern (Default (FloatV (- 74))) f3 = Inr v3"
      "decode_field kern (Default (FloatV 40)) f4 = Inr v4"
      "decode_field kern (Default (FloatV (- 74))) f5 = Inr v5"
      "decode_field kern (Default (FloatV 40.7)) f6 = Inr v6"
    by blast
  show ?thesis
    using d by (simp add: vs decode_field_dtype [of kern])
qed

lemma decode_record_empty_field:
  assumes "decode_record kern row CSV_DEFAULTS = Inr vs"
    and "extract_fields kern row = Some fs" and "i < 7" and "fs ! i = []"
  shows "vs ! i = [FloatV 0.0, IntV 1, IntV 0, FloatV (- 74.0), FloatV 40.0,
                   FloatV (- 74.0), FloatV 40.7] ! i"
proof -
  from decode_record_CSV [OF assms(1)] obtain f0 f1 f2 f3 f4 f5 f6 v0 v1 v2 v3 v4 v5 v6 where
    fs: "extract_fields kern row = Some [f0, f1, f2, f3, f4, f5, f6]"
    and vs: "vs = [v0, v1, v2, v3, v4, v5, v6]"
    and d: "decode_field kern (Default (FloatV 0)) f0 = Inr v0"
      "decode_field kern (Default (IntV 1)) f1 = Inr v1"
      "decode_field kern (Default (IntV 0)) f2 = Inr v2"
      "decode_field kern (Default (FloatV (- 74))) f3 = Inr v3"
      "decode_field kern (Default (FloatV 40)) f4 = Inr v4"
      "decode_field kern (Default (FloatV (- 74))) f5 = Inr v5"
      "decode_field kern (Default (FloatV 40.7)) f6 = Inr v6"
    by blast
  from fs assms(2) have fs7: "fs = [f0, f1, f2, f3, f4, f5, f6]" by simp
  from \<open>i < 7\<close> have "i = 0 \<or> i = 1 \<or> i = 2 \<or> i = 3 \<or> i = 4 \<or> i = 5 \<or> i = 6" by arith
  then show ?thesis
    using \<open>fs ! i = []\<close> d by (auto simp: vs fs7 decode_field_empty)
qed

lemma parse_row_column:
  assumes "i < 7"
  shows "\<exists>features label. parse_row kern row = Inr (features, label)
           \<and> (features(''fare_amount'' \<mapsto> label)) (CSV_COLUMN_NAMES ! i)
               = Some (parsed_column kern row i)"
proof -
  from assms have "i = 0 \<or> i = 1 \<or> i = 2 \<or> i = 3 \<or> i = 4 \<or> i = 5 \<or> i = 6" by arith
  then show ?thesis
    unfolding parse_row_eq by (auto simp: CSV_COLUMN_NAMES_def)
qed

text \<open>
  Claim C2. The CSV schema is fixed: the seven columns \<open>fare_amount\<close>, \<open>dayofweek\<close>,
  \<open>hourofday\<close>, \<open>pickuplon\<close>, \<open>pickuplat\<close>, \<open>dropofflon\<close>, \<open>dropofflat\<close>, in that order.
  An empty field parses, against the record default of each column, to the default of
  that column (0.0, 1, 0, -74.0, 40.0, -74.0, 40.7). A row that parses has exactly
  seven fields; where field \<open>i\<close> of it is empty, the parsed value of column \<open>i\<close> is the
  default of that column; the value \<open>parse_row\<close> returns under the name of column \<open>i\<close> is that
  parsed value; and the parsed type of every column is the type of its default: float
  for \<open>fare_amount\<close> and the four coordinates, integer for \<open>dayofweek\<close> and \<open>hourofday\<close>.
\<close>

theorem csv_schema_defaults:
  assumes "decode_record kern row CSV_DEFAULTS = Inr vs"
  shows "CSV_COLUMN_NAMES = [''fare_amount'', ''dayofweek'', ''hourofday'', ''pickuplon'',
                              ''pickuplat'', ''dropofflon'', ''dropofflat'']
       \<and> map (\<lambda>d. decode_field kern d []) CSV_DEFAULTS
           = map Inr [FloatV 0.0, IntV 1, IntV 0, FloatV (- 74.0), FloatV 40.0,
                      FloatV (- 74.0), FloatV 40.7]
       \<and> (\<exists>fs. extract_fields kern row = Some fs \<and> length fs = 7
           \<and> (\<forall>i < 7. fs ! i = [] \<longrightarrow>
                 vs ! i = [FloatV 0.0, IntV 1, IntV 0, FloatV (- 74.0), FloatV 40.0,
                           FloatV (- 74.0), FloatV 40.7] ! i))
       \<and> (\<forall>i < 7. \<exists>features label. parse_row kern row = Inr (features, label)
              \<and> (features(''fare_amount'' \<mapsto> label)) (CSV_COLUMN_NAMES ! i) = Some (Inr (vs ! i)))
       \<and> map dtype_of vs = [DT_FLOAT, DT_INT32, DT_INT32, DT_FLOAT, DT_FLOAT, DT_FLOAT, DT_FLOAT]"
proof (intro conjI)
  show "CSV_COLUMN_NAMES = [''fare_amount'', ''dayofweek'', ''hourofday'', ''pickuplon'',
                              ''pickuplat'', ''dropofflon'', ''dropofflat'']"
    by (simp add: CSV_COLUMN_NAMES_def)
  show "map (\<lambda>d. decode_field kern d []) CSV_DEFAULTS
           = map Inr [FloatV 0.0, IntV 1, IntV 0, FloatV (- 74.0), FloatV 40.0,
                      FloatV (- 74.0), FloatV 40.7]"
    by (simp add: CSV_DEFAULTS_def decode_field_empty)
  from decode_record_Inr [OF assms] obtain fs where
    fs: "extract_fields kern row = Some fs" "length fs = length CSV_DEFAULTS"
    by blast
  then have "length fs = 7" by (simp add: CSV_DEFAULTS_def)
  with fs(1) decode_record_empty_field [OF assms fs(1)]
  show "\<exists>fs. extract_fields kern row = Some fs \<and> length fs = 7
           \<and> (\<forall>i < 7. fs ! i = [] \<longrightarrow>
                 vs ! i = [FloatV 0.0, IntV 1, IntV 0, FloatV (- 74.0), FloatV 40.0,
                           FloatV (- 74.0), FloatV 40.7] ! i)"
    by blast
  have "\<And>i. parsed_column kern row i = Inr (vs ! i)"
    by (simp add: parsed_column_def assms)
  with parse_row_column [of _ kern row]
  show "\<forall>i < 7. \<exists>features label. parse_row kern row = Inr (features, label)
              \<and> (features(''fare_amount'' \<mapsto> label)) (CSV_COLUMN_NAMES ! i) = Some (Inr (vs ! i))"
    by simp
  show "map dtype_of vs = [DT_FLOAT, DT_INT32, DT_INT32, DT_FLOAT, DT_FLOAT, DT_FLOAT, DT_FLOAT]"
    by (rule decode_record_dtypes [OF assms])
qed

text \<open>
  The theorem at a row whose second and last fields are empty: the day of the week is
  the default 1 and the drop-off latitude the default 40.7.
\<close>

theorem csv_schema_defaults_witness:
  "decode_record plain_kernel ''12.5,,17,-73.98,40.75,-73.97,'' CSV_DEFAULTS
     = Inr [FloatV 12.5, IntV 1, IntV 17, FloatV (- 73.98), FloatV 40.75, FloatV (- 73.97),
            FloatV 40.7]
   \<and> (\<exists>fs. extract_fields plain_kernel ''12.5,,17,-73.98,40.75,-73.97,'' = Some fs
         \<and> length fs = 7 \<and> fs ! 1 = [] \<and> fs ! 6 = [])
   \<and> (\<exists>features label.
         parse_row plain_kernel ''12.5,,17,-73.98,40.75,-73.97,'' = Inr (features, label)
         \<and> label = Inr (FloatV 12.5)
         \<and> features ''dayofweek'' = Some (Inr (IntV 1))
         \<and> features ''dropofflat'' = Some (Inr (FloatV 40.7)))
   \<and> map dtype_of [FloatV 12.5, IntV 1, IntV 17, FloatV (- 73.98), FloatV 40.75,
                    FloatV (- 73.97), FloatV 40.7]
       = [DT_FLOAT, DT_INT32, DT_INT32, DT_FLOAT, DT_FLOAT, DT_FLOAT, DT_FLOAT]"
proof -
  let ?row = "''12.5,,17,-73.98,40.75,-73.97,''"
  let ?vs = "[FloatV 12.5, IntV 1, IntV 17, FloatV (- 73.98), FloatV 40.75, FloatV (- 73.97),
            FloatV 40.7]"
  have h: "decode_record plain_kernel ?row CSV_DEFAULTS = Inr ?vs"
    by (simp add: kernel_simps)
  have f: "extract_fields plain_kernel ?row
             = Some [''12.5'', [], ''17'', ''-73.98'', ''40.75'', ''-73.97'', []]"
    by (simp add: plain_kernel_def)
  note t = csv_schema_defaults [OF h]
  from t have c: "\<forall>i<7. \<exists>features label. parse_row plain_kernel ?row = Inr (features, label)
              \<and> (features(''fare_amount'' \<mapsto> label)) (CSV_COLUMN_NAMES ! i) = Some (Inr (?vs ! i))"
    by blast
  from c [rule_format, of 0] c [rule_format, of 1] c [rule_format, of 6]
  have "\<exists>features label. parse_row plain_kernel ?row = Inr (features, label)
         \<and> label = Inr (FloatV 12.5)
         \<and> features ''dayofweek'' = Some (Inr (IntV 1))
         \<and> features ''dropofflat'' = Some (Inr (FloatV 40.7))"
    by (auto simp: CSV_COLUMN_NAMES_def split: if_splits)
  with h f t show ?thesis by simp
qed

subsection \<open>The declarations of model.py\<close>

text \<open>
  Claim C6. The declarations of the module match: \<open>CSV_COLUMN_NAMES\<close> and
  \<open>CSV_DEFAULTS\<close> both have length 7, one default per name; \<open>FEATURE_NAMES\<close> is
  \<open>CSV_COLUMN_NAMES\<close> without its first element, the label \<open>fare_amount\<close>; the serving
  input receiver declares a placeholder for exactly the feature names, and the type it
  declares for each feature is the type of that column's default: \<open>int32\<close> for
  \<open>dayofweek\<close> and \<open>hourofday\<close>, \<open>float32\<close> for the four coordinates.
\<close>

theorem column_declarations_match:
  "length CSV_COLUMN_NAMES = 7
   \<and> length CSV_DEFAULTS = length CSV_COLUMN_NAMES
   \<and> CSV_COLUMN_NAMES = ''fare_amount'' # FEATURE_NAMES
   \<and> FEATURE_NAMES = tl CSV_COLUMN_NAMES
   \<and> dom (sir_features serving_input_receiver_fn) = set FEATURE_NAMES
   \<and> map (\<lambda>k. map_option ph_dtype (sir_features serving_input_receiver_fn k)) FEATURE_NAMES
       = map (\<lambda>d. Some (default_dtype d)) (tl CSV_DEFAULTS)
   \<and> map (\<lambda>k. map_option ph_dtype (sir_features serving_input_receiver_fn k)) FEATURE_NAMES
       = [Some DT_INT32, Some DT_INT32, Some DT_FLOAT, Some DT_FLOAT, Some DT_FLOAT, Some DT_FLOAT]
   \<and> sir_receiver_tensors serving_input_receiver_fn = sir_features serving_input_receiver_fn"
  by (auto simp: CSV_COLUMN_NAMES_def CSV_DEFAULTS_def FEATURE_NAMES_def
      serving_input_receiver_fn_def dict_def Let_def split: if_splits)

subsection \<open>read\_dataset\<close>

lemma map_dataset_total:
  assumes "\<And>x. f x = Inr (g x)"
  shows "map_dataset f (Inr xs) = Inr (map g xs)"
proof -
  have "map f xs = map Inr (map g xs)" by (simp add: assms)
  then show ?thesis unfolding map_dataset_def by (simp only: collect_map_Inr sum.case)
qed

lemma flat_map_lines:
  "flat_map (\<lambda>filename. skip 1 (TextLineDataset fs filename)) (Inr names)
     = Inr (concat (map (\<lambda>filename. tl (text_lines fs filename)) names))"
proof -
  have "map (\<lambda>filename. skip 1 (TextLineDataset fs filename)) names
          = map Inr (map (\<lambda>filename. tl (text_lines fs filename)) names)"
    by (simp add: skip_def TextLineDataset_def drop_Suc)
  then show ?thesis
    unfolding flat_map_def by (simp only: collect_map_Inr sum.case)
qed

text \<open>
  Claim C8. For every file the glob given to \<open>read_dataset\<close> matches, the first line of
  the file, the header, is skipped, and every other line is parsed by \<open>parse_row\<close>, in
  the order of the lines in the file: the dataset is, file after file, \<open>parse_row\<close> of
  the lines after the first, so no element of it is parsed from a header line.
\<close>

theorem read_dataset_skips_headers:
  assumes "matching_files fs csv_path \<noteq> []"
  shows "\<exists>ds. read_dataset fs kern csv_path = Inr ds
           \<and> map Inr ds =
               concat (map (\<lambda>filename. map (parse_row kern) (tl (text_lines fs filename)))
                           (matching_files fs csv_path))"
proof -
  define g where "g = (\<lambda>row. ([''dayofweek'' \<mapsto> parsed_column kern row 1,
           ''hourofday'' \<mapsto> parsed_column kern row 2,
           ''pickuplon'' \<mapsto> parsed_column kern row 3,
           ''pickuplat'' \<mapsto> parsed_column kern row 4,
           ''dropofflon'' \<mapsto> parsed_column kern row 5,
           ''dropofflat'' \<mapsto> parsed_column kern row 6],
          parsed_column kern row 0))"
  have pr: "\<And>row. parse_row kern row = Inr (g row)"
    unfolding g_def by (rule parse_row_eq)
  define rows where
    "rows = concat (map (\<lambda>filename. tl (text_lines fs filename)) (matching_files fs csv_path))"
  have lf: "list_files fs csv_path = Inr (matching_files fs csv_path)"
    using assms by (simp add: list_files_def)
  have rd: "read_dataset fs kern csv_path = Inr (map g rows)"
    unfolding read_dataset_def Let_def lf flat_map_lines rows_def [symmetric]
    by (rule map_dataset_total [OF pr])
  have "map Inr (map g rows) = map (parse_row kern) rows"
    by (simp add: pr)
  also have "\<dots> = concat (map (\<lambda>filename. map (parse_row kern) (tl (text_lines fs filename)))
                     (matching_files fs csv_path))"
    unfolding rows_def by (simp add: map_concat comp_def)
  finally show ?thesis using rd by blast
qed

text \<open>
  The theorem at two files of three and two lines: the dataset has the one data row of
  the first file, then the two data rows of the second.
\<close>

theorem read_dataset_skips_headers_witness:
  "matching_files taxi_files ''taxi-*.csv'' \<noteq> []
   \<and> (\<exists>ds. read_dataset taxi_files plain_kernel ''taxi-*.csv'' = Inr ds
         \<and> map Inr ds =
             [parse_row plain_kernel ''9.3,5,23,-74.01,40.71,-73.98,40.76'',
              parse_row plain_kernel ''12.5,,17,-73.98,40.75,-73.97,'',
              parse_row plain_kernel ''6,3,8,-73.99,40.72,-73.95,40.78''])"
proof -
  have h: "matching_files taxi_files ''taxi-*.csv'' \<noteq> []"
    by (simp add: taxi_files_def)
  from read_dataset_skips_headers [OF h, of plain_kernel] h
  show ?thesis by (simp add: taxi_files_def)
qed

subsection \<open>create\_model\<close>

lemma sum_list_zip_nth:
  assumes "length xs = length ys"
  shows "sum_list (map f (zip xs ys)) = (\<Sum>i < length xs. f (xs ! i, ys ! i))"
proof -
  have "sum_list (map f (zip xs ys))
          = (\<Sum>i = 0 ..< length (map f (zip xs ys)). map f (zip xs ys) ! i)"
    by (rule sum_list_sum_nth)
  also have "\<dots> = (\<Sum>i = 0 ..< length xs. f (xs ! i, ys ! i))"
    using assms by (intro sum.cong) auto
  finally show ?thesis by (simp add: atLeast0LessThan)
qed

lemma my_rmse_value:
  assumes "predictions ''predictions'' = Some p" and "squeeze p = Inr pred_values"
    and "length pred_values = length labels"
  shows "my_rmse labels predictions = Inr [''rmse'' \<mapsto> rmse labels pred_values]"
  using assms sum_list_zip_nth [of labels pred_values "\<lambda>(l, p). (l - p)\<^sup>2"]
  by (simp add: my_rmse_def getitem_def root_mean_squared_error_def dict_def rmse_def)

lemma create_model_PyInt:
  assumes "d \<noteq> []"
  shows "create_model (PyStr d) (PyInt n) =
     Inr \<lparr>hidden_units = [10, 10],
          feature_columns = map numeric_column FEATURE_NAMES,
          config = \<lparr>tf_random_seed = 1, save_checkpoints_steps = max 10 (n div 10),
                    model_dir = PyStr d\<rparr>,
          added_metrics = [my_rmse]\<rparr>"
  using assms by (simp add: create_model_def RunConfig_def DNNRegressor_def add_metrics_def)

lemma create_model_Inr:
  assumes "create_model mdir train_steps = Inr m"
  shows "\<exists>n. train_steps = PyInt n
           \<and> tf_random_seed (config m) = 1
           \<and> save_checkpoints_steps (config m) = max 10 (n div 10)"
  using assms
  by (auto simp: create_model_def RunConfig_def DNNRegressor_def add_metrics_def
      split: pyval.splits if_splits)

text \<open>
  Claim C5 says that \<open>create_model\<close> builds the regressor for every model directory.
  That fails for the empty model directory, which a command line with \<open>--output_dir=\<close>
  gives: \<open>RunConfig\<close> rejects it and \<open>create_model\<close> raises \<open>ValueError\<close>.
\<close>

theorem create_model_rejects_empty_model_dir:
  "create_model (PyStr []) (PyInt 1000) = Inl ValueError"
  by (simp add: create_model_def RunConfig_def)

text \<open>
  Claim C5, as the code has it. For every model directory that is a non-empty string
  and every integer number of training steps, \<open>create_model\<close> builds a regressor with
  exactly two hidden layers of 10 units each, over numeric feature columns for exactly
  the six columns that are not the label, and adds one metric function to it. On labels
  and predictions whose \<open>predictions\<close> entry squeezes to as many values as there are
  labels, that function returns the single metric \<open>rmse\<close>, the root mean squared error
  between the labels and the squeezed values.
\<close>

theorem create_model_structure:
  assumes "d \<noteq> []"
  shows "\<exists>m f. create_model (PyStr d) (PyInt n) = Inr m
     \<and> hidden_units m = [10, 10]
     \<and> feature_columns m =
         [numeric_column ''dayofweek'', numeric_column ''hourofday'',
          numeric_column ''pickuplon'', numeric_column ''pickuplat'',
          numeric_column ''dropofflon'', numeric_column ''dropofflat'']
     \<and> added_metrics m = [f]
     \<and> (\<forall>labels predictions p pred_values.
           predictions ''predictions'' = Some p \<and> squeeze p = Inr pred_values
           \<and> length pred_values = length labels
           \<longrightarrow> f labels predictions = Inr [''rmse'' \<mapsto> rmse labels pred_values])"
  by (auto simp: create_model_PyInt [OF assms] FEATURE_NAMES_def CSV_COLUMN_NAMES_def
      my_rmse_value)

text \<open>
  The theorem at the model directory of the local run, and at labels 1 and 2 with
  predictions 1 and 4, a matrix of two rows and one column: the squared differences are
  0 and 4, their mean is 2.
\<close>

theorem create_model_structure_witness:
  "''taxi_trained'' \<noteq> []
   \<and> (\<exists>m f. create_model (PyStr ''taxi_trained'') (PyInt 1000) = Inr m
         \<and> hidden_units m = [10, 10]
         \<and> added_metrics m = [f]
         \<and> squeeze [[1], [4]] = Inr [1, 4]
         \<and> f [1, 2] [''predictions'' \<mapsto> [[1], [4]]] = Inr [''rmse'' \<mapsto> sqrt 2])"
proof -
  have h: "''taxi_trained'' \<noteq> []" by simp
  from create_model_structure [OF h, of 1000] obtain m f where
    m: "create_model (PyStr ''taxi_trained'') (PyInt 1000) = Inr m"
      "hidden_units m = [10, 10]" "added_metrics m = [f]"
    and r: "\<forall>labels predictions p pred_values.
           predictions ''predictions'' = Some p \<and> squeeze p = Inr pred_values
           \<and> length pred_values = length labels
           \<longrightarrow> f labels predictions = Inr [''rmse'' \<mapsto> rmse labels pred_values]"
    by blast
  have s: "squeeze [[1], [4]] = Inr [1, 4]"
    by (simp add: squeeze_def)
  have v: "rmse [1, 2] [1, 4] = sqrt 2"
    by (simp add: rmse_def lessThan_Suc eval_nat_numeral)
  from r [rule_format, of "[''predictions'' \<mapsto> [[1], [4]]]" "[[1], [4]]" "[1, 4]" "[1, 2]"] s
  have "f [1, 2] [''predictions'' \<mapsto> [[1], [4]]] = Inr [''rmse'' \<mapsto> rmse [1, 2] [1, 4]]"
    by simp
  with m s v h show ?thesis by auto
qed

text \<open>
  Claim C10. For every number of training steps, the checkpoint interval \<open>create_model\<close>
  configures is \<open>max(10, train_steps // 10)\<close> in exact integer arithmetic: it is never
  below 10, and it is \<open>train_steps // 10\<close> exactly when \<open>train_steps\<close> is at least 100;
  and the run configuration has the random seed 1. This holds of the estimator of every
  call that returns one, whatever the model directory, and \<open>create_model\<close> returns one
  for every integer number of steps and every model directory that is a non-empty
  string (for the empty string it raises and configures nothing).
\<close>

theorem create_model_checkpoint_interval:
  "(\<forall>mdir m. create_model mdir (PyInt n) = Inr m \<longrightarrow>
        save_checkpoints_steps (config m) = max 10 (n div 10)
      \<and> 10 \<le> save_checkpoints_steps (config m)
      \<and> ((save_checkpoints_steps (config m) = n div 10) = (100 \<le> n))
      \<and> tf_random_seed (config m) = 1)
   \<and> (d \<noteq> [] \<longrightarrow> (\<exists>m. create_model (PyStr d) (PyInt n) = Inr m))"
proof (intro conjI allI impI)
  fix mdir m
  assume "create_model mdir (PyInt n) = Inr m"
  from create_model_Inr [OF this]
  have c: "save_checkpoints_steps (config m) = max 10 (n div 10)"
    and r: "tf_random_seed (config m) = 1"
    by auto
  show "save_checkpoints_steps (config m) = max 10 (n div 10)"
    by (rule c)
  show "10 \<le> save_checkpoints_steps (config m)"
    unfolding c by simp
  show "(save_checkpoints_steps (config m) = n div 10) = (100 \<le> n)"
    unfolding c by auto
  show "tf_random_seed (config m) = 1"
    by (rule r)
next
  assume "d \<noteq> []"
  then show "\<exists>m. create_model (PyStr d) (PyInt n) = Inr m"
    by (simp add: create_model_PyInt)
qed

text \<open>
  The theorem at the model directory of the local run, with 1000 steps and with the one
  step of the local run: the intervals are 100 and 10.
\<close>

theorem create_model_checkpoint_interval_witness:
  "''taxi_trained'' \<noteq> []
   \<and> (\<exists>m. create_model (PyStr ''taxi_trained'') (PyInt 1000) = Inr m
         \<and> save_checkpoints_steps (config m) = 100
         \<and> tf_random_seed (config m) = 1)
   \<and> (\<exists>m. create_model (PyStr ''taxi_trained'') (PyInt 1) = Inr m
         \<and> save_checkpoints_steps (config m) = 10
         \<and> tf_random_seed (config m) = 1)"
proof -
  have h: "''taxi_trained'' \<noteq> []" by simp
  note a = create_model_checkpoint_interval [where n = 1000 and d = "''taxi_trained''"]
  note b = create_model_checkpoint_interval [where n = 1 and d = "''taxi_trained''"]
  from a h obtain m where m: "create_model (PyStr ''taxi_trained'') (PyInt 1000) = Inr m"
    by blast
  with a have "save_checkpoints_steps (config m) = max 10 (1000 div 10)
      \<and> tf_random_seed (config m) = 1"
    by blast
  then have 1: "save_checkpoints_steps (config m) = 100 \<and> tf_random_seed (config m) = 1"
    by simp
  from b h obtain m' where m': "create_model (PyStr ''taxi_trained'') (PyInt 1) = Inr m'"
    by blast
  with b have "save_checkpoints_steps (config m') = max 10 (1 div 10)
      \<and> tf_random_seed (config m') = 1"
    by blast
  then have 2: "save_checkpoints_steps (config m') = 10 \<and> tf_random_seed (config m') = 1"
    by simp
  from h m 1 m' 2 show ?thesis by blast
qed

subsection \<open>train\_and\_evaluate\<close>

lemma train_and_evaluate_missing_key:
  assumes "k \<in> set [''output_dir'', ''train_data_path'', ''eval_data_path'', ''train_steps'']"
    and "q k = None"
  shows "\<exists>k'. train_and_evaluate lib q w = Inl (KeyError k') \<and> q k' = None"
  using assms unfolding train_and_evaluate_def getitem_def
  by (auto split: option.splits)

lemma train_and_evaluate_reads_four:
  assumes "q ''output_dir'' = p ''output_dir''"
    and "q ''train_data_path'' = p ''train_data_path''"
    and "q ''eval_data_path'' = p ''eval_data_path''"
    and "q ''train_steps'' = p ''train_steps''"
  shows "train_and_evaluate lib q w = train_and_evaluate lib p w"
  unfolding train_and_evaluate_def getitem_def assms by (rule refl)

lemma rmtree_ignore_errors:
  "rmtree lib path True w = Inr (snd (remove_tree lib path w))"
  by (simp add: rmtree_def split: prod.splits option.splits)

text \<open>With the four parameters present, the call is the two constructions, then the
  training in the state the deletion leaves.\<close>

lemma train_and_evaluate_steps:
  assumes "p ''output_dir'' = Some od"
    and "p ''train_data_path'' = Some tp"
    and "p ''eval_data_path'' = Some ep"
    and "p ''train_steps'' = Some ts"
  shows "train_and_evaluate lib p w =
           (case create_model od ts of
              Inl e \<Rightarrow> Inl e
            | Inr model \<Rightarrow>
                (case TrainSpec (train_input_fn tp 128) ts of
                   Inl e \<Rightarrow> Inl e
                 | Inr tspec \<Rightarrow>
                     estimator_train_and_evaluate lib model tspec
                       \<lparr>es_input_fn = eval_input_fn ep 128, es_steps = PyNone,
                        es_start_delay_secs = 1, es_throttle_secs = 1,
                        es_exporters = \<lparr>fe_name = ''exporter'',
                          fe_serving_input_receiver_fn = serving_input_receiver_fn\<rparr>\<rparr>
                       (snd (remove_tree lib od (set_verbosity lib INFO w)))))"
  using assms unfolding train_and_evaluate_def getitem_def
  by (simp add: rmtree_ignore_errors Let_def split: sum.splits)

lemma train_and_evaluate_run_ex:
  assumes "params ''output_dir'' = Some (PyStr d)" and "d \<noteq> []"
    and "params ''train_data_path'' = Some tp"
    and "params ''eval_data_path'' = Some ep"
    and "params ''train_steps'' = Some (PyInt n)"
    and "0 < n"
  shows "\<exists>model tspec espec.
           create_model (PyStr d) (PyInt n) = Inr model
         \<and> TrainSpec (train_input_fn tp 128) (PyInt n) = Inr tspec
         \<and> es_input_fn espec = eval_input_fn ep 128
         \<and> train_and_evaluate lib params w =
             estimator_train_and_evaluate lib model tspec espec
               (snd (remove_tree lib (PyStr d) (set_verbosity lib INFO w)))"
proof -
  let ?model = "\<lparr>hidden_units = [10, 10],
              feature_columns = map numeric_column FEATURE_NAMES,
              config = \<lparr>tf_random_seed = 1, save_checkpoints_steps = max 10 (n div 10),
                        model_dir = PyStr d\<rparr>,
              added_metrics = [my_rmse]\<rparr>"
  let ?tspec = "\<lparr>ts_input_fn = train_input_fn tp 128, ts_max_steps = PyInt n\<rparr>"
  let ?espec = "\<lparr>es_input_fn = eval_input_fn ep 128, es_steps = PyNone,
              es_start_delay_secs = 1, es_throttle_secs = 1,
              es_exporters = \<lparr>fe_name = ''exporter'',
                fe_serving_input_receiver_fn = serving_input_receiver_fn\<rparr>\<rparr>"
  have 1: "create_model (PyStr d) (PyInt n) = Inr ?model"
    by (rule create_model_PyInt [OF assms(2)])
  have 2: "TrainSpec (train_input_fn tp 128) (PyInt n) = Inr ?tspec"
    using \<open>0 < n\<close> by (simp add: TrainSpec_def)
  have 3: "es_input_fn ?espec = eval_input_fn ep 128"
    by simp
  have 4: "train_and_evaluate lib params w =
             estimator_train_and_evaluate lib ?model ?tspec ?espec
               (snd (remove_tree lib (PyStr d) (set_verbosity lib INFO w)))"
    unfolding train_and_evaluate_steps [OF assms(1,3,4,5)] 1 2 by simp
  from 1 2 3 4 show ?thesis by blast
qed

lemma parse_row_decode_error:
  assumes "decode_record kern row CSV_DEFAULTS = Inl e"
  shows "\<exists>features. parse_row kern row = Inr (features, Inl e)
           \<and> dom features = set FEATURE_NAMES \<and> ran features = {Inl e}"
proof -
  have c: "\<And>i. parsed_column kern row i = Inl e"
    by (simp add: parsed_column_def assms)
  show ?thesis
    unfolding parse_row_eq c
    by (auto simp: FEATURE_NAMES_def CSV_COLUMN_NAMES_def ran_def)
qed

text \<open>
  Claim C3 says that no failure of an underlying call is suppressed: a failure of file
  deletion, parsing or training reaches the caller unchanged. That fails for file
  deletion. On a disk where the output directory cannot be deleted, and on a disk where
  it does not exist, the deletion fails and \<open>train_and_evaluate\<close> returns normally, with
  the training done.
\<close>

theorem deletion_failure_is_dropped:
  "fst (remove_tree local_library (PyStr ''taxi_trained'')
          (set_verbosity local_library INFO locked_disk))
     = Some (OSError ''Permission denied'')
   \<and> train_and_evaluate local_library local_params locked_disk
     = Inr \<lparr>dirs = [''taxi_trained''], locked = [''taxi_trained''],
            files = [''taxi-train.csv'', ''taxi-valid.csv''], verbosity = INFO,
            at_start = [''taxi_trained'']\<rparr>
   \<and> fst (remove_tree local_library (PyStr ''taxi_trained'')
          (set_verbosity local_library INFO fresh_disk))
     = Some (OSError ''No such file or directory'')
   \<and> train_and_evaluate local_library local_params fresh_disk
     = Inr \<lparr>dirs = [''taxi_trained''], locked = [],
            files = [''taxi-train.csv'', ''taxi-valid.csv''], verbosity = INFO,
            at_start = []\<rparr>"
  by (simp add: run_simps local_params_def locked_disk_def fresh_disk_def)

text \<open>
  Claim C3, as the code has it. The code has no handler of its own, and every failure
  but one reaches the caller unchanged: a command line that \<open>argparse\<close> rejects ends
  \<open>task.py\<close> with that exit; a row the CSV decoder rejects gives a label and features
  that all carry the decoder's error; a missing parameter is the \<open>KeyError\<close> of the
  lookup; with the four parameters present, an error of \<open>create_model\<close> (the
  \<open>ValueError\<close> of an empty output directory, the \<open>TypeError\<close> of a number of steps that is
  no integer) and an error of the \<open>TrainSpec\<close> constructor are the error of
  \<open>train_and_evaluate\<close>; and with an output directory that is a non-empty string and a
  positive number of steps, the result of \<open>train_and_evaluate\<close> is the result of the
  training call, so a failure of the training is returned as it is. The exception is
  the deletion of the output directory: the code passes \<open>ignore_errors = True\<close>, so
  training runs in whatever state the deletion leaves, and an error of the deletion is
  not part of the result.
\<close>

theorem failures_propagate_except_deletion:
  "(parse_args alib parser argv = Inl e1 \<longrightarrow> main alib lib argv w = Inl e1)
   \<and> (decode_record kern row CSV_DEFAULTS = Inl e2 \<longrightarrow>
        (\<exists>features. parse_row kern row = Inr (features, Inl e2)
           \<and> dom features = set FEATURE_NAMES \<and> ran features = {Inl e2}))
   \<and> (k \<in> set [''output_dir'', ''train_data_path'', ''eval_data_path'', ''train_steps'']
        \<and> q k = None \<longrightarrow>
        (\<exists>k'. train_and_evaluate lib q w = Inl (KeyError k') \<and> q k' = None))
   \<and> (p ''output_dir'' = Some od \<and> p ''train_data_path'' = Some tp'
        \<and> p ''eval_data_path'' = Some ep' \<and> p ''train_steps'' = Some ts
        \<and> create_model od ts = Inl e3 \<longrightarrow>
        train_and_evaluate lib p w = Inl e3)
   \<and> (p ''output_dir'' = Some od \<and> p ''train_data_path'' = Some tp'
        \<and> p ''eval_data_path'' = Some ep' \<and> p ''train_steps'' = Some ts
        \<and> create_model od ts = Inr m \<and> TrainSpec (train_input_fn tp' 128) ts = Inl e4 \<longrightarrow>
        train_and_evaluate lib p w = Inl e4)
   \<and> (params ''output_dir'' = Some (PyStr d) \<and> d \<noteq> []
        \<and> params ''train_data_path'' = Some tp
        \<and> params ''eval_data_path'' = Some ep \<and> params ''train_steps'' = Some (PyInt n)
        \<and> 0 < n \<longrightarrow>
        (\<exists>model tspec espec.
             create_model (PyStr d) (PyInt n) = Inr model
           \<and> TrainSpec (train_input_fn tp 128) (PyInt n) = Inr tspec
           \<and> es_input_fn espec = eval_input_fn ep 128
           \<and> train_and_evaluate lib params w =
               estimator_train_and_evaluate lib model tspec espec
                 (snd (remove_tree lib (PyStr d) (set_verbosity lib INFO w)))))"
proof (intro conjI impI)
  assume "parse_args alib parser argv = Inl e1"
  then show "main alib lib argv w = Inl e1" by (simp add: main_def)
next
  assume "decode_record kern row CSV_DEFAULTS = Inl e2"
  then show "\<exists>features. parse_row kern row = Inr (features, Inl e2)
           \<and> dom features = set FEATURE_NAMES \<and> ran features = {Inl e2}"
    by (rule parse_row_decode_error)
next
  assume "k \<in> set [''output_dir'', ''train_data_path'', ''eval_data_path'', ''train_steps'']
        \<and> q k = None"
  then show "\<exists>k'. train_and_evaluate lib q w = Inl (KeyError k') \<and> q k' = None"
    using train_and_evaluate_missing_key [of k q lib w] by blast
next
  assume a: "p ''output_dir'' = Some od \<and> p ''train_data_path'' = Some tp'
        \<and> p ''eval_data_path'' = Some ep' \<and> p ''train_steps'' = Some ts
        \<and> create_model od ts = Inl e3"
  then have "train_and_evaluate lib p w =
           (case create_model od ts of
              Inl e \<Rightarrow> Inl e
            | Inr model \<Rightarrow>
                (case TrainSpec (train_input_fn tp' 128) ts of
                   Inl e \<Rightarrow> Inl e
                 | Inr tspec \<Rightarrow>
                     estimator_train_and_evaluate lib model tspec
                       \<lparr>es_input_fn = eval_input_fn ep' 128, es_steps = PyNone,
                        es_start_delay_secs = 1, es_throttle_secs = 1,
                        es_exporters = \<lparr>fe_name = ''exporter'',
                          fe_serving_input_receiver_fn = serving_input_receiver_fn\<rparr>\<rparr>
                       (snd (remove_tree lib od (set_verbosity lib INFO w)))))"
    by (intro train_and_evaluate_steps) simp_all
  with a show "train_and_evaluate lib p w = Inl e3" by simp
next
  assume a: "p ''output_dir'' = Some od \<and> p ''train_data_path'' = Some tp'
        \<and> p ''eval_data_path'' = Some ep' \<and> p ''train_steps'' = Some ts
        \<and> create_model od ts = Inr m \<and> TrainSpec (train_input_fn tp' 128) ts = Inl e4"
  then have "train_and_evaluate lib p w =
           (case create_model od ts of
              Inl e \<Rightarrow> Inl e
            | Inr model \<Rightarrow>
                (case TrainSpec (train_input_fn tp' 128) ts of
                   Inl e \<Rightarrow> Inl e
                 | Inr tspec \<Rightarrow>
                     estimator_train_and_evaluate lib model tspec
                       \<lparr>es_input_fn = eval_input_fn ep' 128, es_steps = PyNone,
                        es_start_delay_secs = 1, es_throttle_secs = 1,
                        es_exporters = \<lparr>fe_name = ''exporter'',
                          fe_serving_input_receiver_fn = serving_input_receiver_fn\<rparr>\<rparr>
                       (snd (remove_tree lib od (set_verbosity lib INFO w)))))"
    by (intro train_and_evaluate_steps) simp_all
  with a show "train_and_evaluate lib p w = Inl e4" by simp
next
  assume "params ''output_dir'' = Some (PyStr d) \<and> d \<noteq> []
        \<and> params ''train_data_path'' = Some tp
        \<and> params ''eval_data_path'' = Some ep \<and> params ''train_steps'' = Some (PyInt n)
        \<and> 0 < n"
  then show "\<exists>model tspec espec.
             create_model (PyStr d) (PyInt n) = Inr model
           \<and> TrainSpec (train_input_fn tp 128) (PyInt n) = Inr tspec
           \<and> es_input_fn espec = eval_input_fn ep 128
           \<and> train_and_evaluate lib params w =
               estimator_train_and_evaluate lib model tspec espec
                 (snd (remove_tree lib (PyStr d) (set_verbosity lib INFO w)))"
    using train_and_evaluate_run_ex [of params d tp ep n lib w] by blast
qed

text \<open>
  The theorem at a command line without the required paths, at a row of two fields, at
  the empty parameter dictionary, at the parameters of the local run with an empty
  output directory and with zero steps, and at the parameters of the local run on a
  disk without data files, where the training fails.
\<close>

theorem failures_propagate_except_deletion_witness:
  "parse_args plain_argparse parser [''--train_steps=5''] = Inl (SystemExit 2)
   \<and> main plain_argparse local_library [''--train_steps=5''] empty_disk = Inl (SystemExit 2)
   \<and> decode_record plain_kernel ''12.5,x'' CSV_DEFAULTS = Inl InvalidArgumentError
   \<and> (\<exists>features. parse_row plain_kernel ''12.5,x'' = Inr (features, Inl InvalidArgumentError)
         \<and> dom features = set FEATURE_NAMES \<and> ran features = {Inl InvalidArgumentError})
   \<and> train_and_evaluate local_library Map.empty empty_disk = Inl (KeyError ''output_dir'')
   \<and> create_model (PyStr []) (PyInt 1) = Inl ValueError
   \<and> train_and_evaluate local_library (local_params(''output_dir'' \<mapsto> PyStr [])) empty_disk
       = Inl ValueError
   \<and> create_model (PyStr ''taxi_trained'') (PyInt 0) = Inr
        \<lparr>hidden_units = [10, 10], feature_columns = map numeric_column FEATURE_NAMES,
         config = \<lparr>tf_random_seed = 1, save_checkpoints_steps = 10,
                   model_dir = PyStr ''taxi_trained''\<rparr>,
         added_metrics = [my_rmse]\<rparr>
   \<and> TrainSpec (train_input_fn (PyStr ''taxi-train.csv'') 128) (PyInt 0) = Inl ValueError
   \<and> train_and_evaluate local_library (local_params(''train_steps'' \<mapsto> PyInt 0)) empty_disk
       = Inl ValueError
   \<and> train_and_evaluate local_library local_params empty_disk
       = Inl (TrainingError ''File not found'')"
proof -
  let ?m0 = "\<lparr>hidden_units = [10, 10], feature_columns = map numeric_column FEATURE_NAMES,
         config = \<lparr>tf_random_seed = 1, save_checkpoints_steps = 10,
                   model_dir = PyStr ''taxi_trained''\<rparr>,
         added_metrics = [my_rmse]\<rparr>"
  let ?p0 = "local_params(''train_steps'' \<mapsto> PyInt 0)"
  let ?p1 = "local_params(''output_dir'' \<mapsto> PyStr [])"
  have p: "parse_args plain_argparse parser [''--train_steps=5''] = Inl (SystemExit 2)"
    unfolding parse_args_def
    by (simp add: plain_argparse_def parser_def add_argument_def arg_value_def)
  have d: "decode_record plain_kernel ''12.5,x'' CSV_DEFAULTS = Inl InvalidArgumentError"
    by (simp add: kernel_simps)
  have k: "''output_dir'' \<in> set [''output_dir'', ''train_data_path'', ''eval_data_path'', ''train_steps'']
        \<and> (Map.empty :: string \<rightharpoonup> pyval) ''output_dir'' = None"
    by simp
  have c1: "create_model (PyStr []) (PyInt 1) = Inl ValueError"
    by (simp add: create_model_def RunConfig_def)
  have f1: "?p1 ''output_dir'' = Some (PyStr []) \<and> ?p1 ''train_data_path'' = Some (PyStr ''taxi-train.csv'')
        \<and> ?p1 ''eval_data_path'' = Some (PyStr ''taxi-valid.csv'') \<and> ?p1 ''train_steps'' = Some (PyInt 1)
        \<and> create_model (PyStr []) (PyInt 1) = Inl ValueError"
    using c1 by (simp add: local_params_def)
  have c0: "create_model (PyStr ''taxi_trained'') (PyInt 0) = Inr ?m0"
    by (simp add: create_model_def RunConfig_def DNNRegressor_def add_metrics_def)
  have t0: "TrainSpec (train_input_fn (PyStr ''taxi-train.csv'') 128) (PyInt 0) = Inl ValueError"
    by (simp add: TrainSpec_def)
  have f0: "?p0 ''output_dir'' = Some (PyStr ''taxi_trained'')
        \<and> ?p0 ''train_data_path'' = Some (PyStr ''taxi-train.csv'')
        \<and> ?p0 ''eval_data_path'' = Some (PyStr ''taxi-valid.csv'')
        \<and> ?p0 ''train_steps'' = Some (PyInt 0)
        \<and> create_model (PyStr ''taxi_trained'') (PyInt 0) = Inr ?m0
        \<and> TrainSpec (train_input_fn (PyStr ''taxi-train.csv'') 128) (PyInt 0) = Inl ValueError"
    using c0 t0 by (simp add: local_params_def)
  have r: "local_params ''output_dir'' = Some (PyStr ''taxi_trained'') \<and> ''taxi_trained'' \<noteq> []
        \<and> local_params ''train_data_path'' = Some (PyStr ''taxi-train.csv'')
        \<and> local_params ''eval_data_path'' = Some (PyStr ''taxi-valid.csv'')
        \<and> local_params ''train_steps'' = Some (PyInt 1) \<and> (0::int) < 1"
    by (simp add: local_params_def)
  note t = failures_propagate_except_deletion
    [where alib = plain_argparse and argv = "[''--train_steps=5'']" and ?e1.0 = "SystemExit 2"
       and lib = local_library and w = empty_disk and kern = plain_kernel
       and row = "''12.5,x''" and ?e2.0 = InvalidArgumentError and k = "''output_dir''"
       and q = Map.empty and params = local_params and d = "''taxi_trained''"
       and tp = "PyStr ''taxi-train.csv''" and ep = "PyStr ''taxi-valid.csv''" and n = 1
       and p = ?p1 and od = "PyStr []" and tp' = "PyStr ''taxi-train.csv''"
       and ep' = "PyStr ''taxi-valid.csv''" and ts = "PyInt 1" and ?e3.0 = ValueError
       and m = ?m0 and ?e4.0 = ValueError]
  note u = failures_propagate_except_deletion
    [where alib = plain_argparse and argv = "[''--train_steps=5'']" and ?e1.0 = "SystemExit 2"
       and lib = local_library and w = empty_disk and kern = plain_kernel
       and row = "''12.5,x''" and ?e2.0 = InvalidArgumentError and k = "''output_dir''"
       and q = Map.empty and params = local_params and d = "''taxi_trained''"
       and tp = "PyStr ''taxi-train.csv''" and ep = "PyStr ''taxi-valid.csv''" and n = 1
       and p = ?p0 and od = "PyStr ''taxi_trained''" and tp' = "PyStr ''taxi-train.csv''"
       and ep' = "PyStr ''taxi-valid.csv''" and ts = "PyInt 0" and ?e3.0 = ValueError
       and m = ?m0 and ?e4.0 = ValueError]
  from t p have 1: "main plain_argparse local_library [''--train_steps=5''] empty_disk = Inl (SystemExit 2)"
    by blast
  from t d have 2: "\<exists>features. parse_row plain_kernel ''12.5,x'' = Inr (features, Inl InvalidArgumentError)
         \<and> dom features = set FEATURE_NAMES \<and> ran features = {Inl InvalidArgumentError}"
    by blast
  from t k have "\<exists>k'. train_and_evaluate local_library Map.empty empty_disk = Inl (KeyError k')
      \<and> (Map.empty :: string \<rightharpoonup> pyval) k' = None"
    by blast
  then have 3: "train_and_evaluate local_library Map.empty empty_disk = Inl (KeyError ''output_dir'')"
    by (simp add: train_and_evaluate_def getitem_def)
  from t f1 have 5: "train_and_evaluate local_library ?p1 empty_disk = Inl ValueError"
    by blast
  from u f0 have 6: "train_and_evaluate local_library ?p0 empty_disk = Inl ValueError"
    by blast
  from t r have "\<exists>model tspec espec.
             create_model (PyStr ''taxi_trained'') (PyInt 1) = Inr model
           \<and> TrainSpec (train_input_fn (PyStr ''taxi-train.csv'') 128) (PyInt 1) = Inr tspec
           \<and> es_input_fn espec = eval_input_fn (PyStr ''taxi-valid.csv'') 128
           \<and> train_and_evaluate local_library local_params empty_disk =
               estimator_train_and_evaluate local_library model tspec espec
                 (snd (remove_tree local_library (PyStr ''taxi_trained'')
                    (set_verbosity local_library INFO empty_disk)))"
    by blast
  then have 4: "train_and_evaluate local_library local_params empty_disk
       = Inl (TrainingError ''File not found'')"
    by (auto simp: create_model_PyInt TrainSpec_def local_library_def empty_disk_def)
  show ?thesis
    by (intro conjI p 1 d 2 3 c1 5 c0 t0 6 4)
qed

text \<open>
  Claim C4 says that every call of \<open>train_and_evaluate\<close> clears the output directory
  before training, so that each run begins from a fresh directory. That fails where the
  deletion fails: its error is ignored, and on a disk where the directory left by an
  earlier run cannot be deleted, the training starts with that directory present.
\<close>

theorem stale_directory_at_training_start:
  "remove_tree local_library (PyStr ''taxi_trained'')
       (set_verbosity local_library INFO locked_disk)
     = (Some (OSError ''Permission denied''), locked_disk\<lparr>verbosity := INFO\<rparr>)
   \<and> map_sum id at_start (train_and_evaluate local_library local_params locked_disk)
     = Inr [''taxi_trained'']"
  by (simp add: run_simps local_params_def locked_disk_def)

text \<open>
  Claim C4, as the code has it. Every call of \<open>train_and_evaluate\<close> whose parameters
  hold the four keys, with a non-empty string for \<open>output_dir\<close> and a positive integer
  for \<open>train_steps\<close>, builds the model and then runs the recursive deletion of
  \<open>params["output_dir"]\<close> with \<open>ignore_errors = True\<close> before training starts: the
  training starts in the state the deletion leaves. The deletion never raises, whether
  or not the directory exists and whether or not the deletion met an error. Where the
  deletion can remove the directory, the run begins without it: on the local disk,
  every output directory that is not locked, present before the call or not, is absent
  when training starts.
\<close>

theorem output_dir_deletion_before_training:
  assumes "params ''output_dir'' = Some (PyStr d)" and "d \<noteq> []"
    and "params ''train_data_path'' = Some tp"
    and "params ''eval_data_path'' = Some ep"
    and "params ''train_steps'' = Some (PyInt n)"
    and "0 < n"
  shows "(\<exists>model tspec espec err w'.
            create_model (PyStr d) (PyInt n) = Inr model
          \<and> remove_tree lib (PyStr d) (set_verbosity lib INFO w) = (err, w')
          \<and> rmtree lib (PyStr d) True (set_verbosity lib INFO w) = Inr w'
          \<and> train_and_evaluate lib params w =
              estimator_train_and_evaluate lib model tspec espec w')
       \<and> (d \<notin> set (locked disk) \<longrightarrow>
            (\<exists>model tspec espec w'.
                rmtree local_library (PyStr d) True (set_verbosity local_library INFO disk)
                  = Inr w'
              \<and> d \<notin> set (dirs w')
              \<and> train_and_evaluate local_library params disk =
                  estimator_train_and_evaluate local_library model tspec espec w'))"
proof (intro conjI impI)
  from train_and_evaluate_run_ex [OF assms, of lib w] obtain model tspec espec where
    "create_model (PyStr d) (PyInt n) = Inr model"
    "train_and_evaluate lib params w =
       estimator_train_and_evaluate lib model tspec espec
         (snd (remove_tree lib (PyStr d) (set_verbosity lib INFO w)))"
    by blast
  moreover have "remove_tree lib (PyStr d) (set_verbosity lib INFO w) =
      (fst (remove_tree lib (PyStr d) (set_verbosity lib INFO w)),
       snd (remove_tree lib (PyStr d) (set_verbosity lib INFO w)))"
    by simp
  ultimately show "\<exists>model tspec espec err w'.
            create_model (PyStr d) (PyInt n) = Inr model
          \<and> remove_tree lib (PyStr d) (set_verbosity lib INFO w) = (err, w')
          \<and> rmtree lib (PyStr d) True (set_verbosity lib INFO w) = Inr w'
          \<and> train_and_evaluate lib params w =
              estimator_train_and_evaluate lib model tspec espec w'"
    using rmtree_ignore_errors [of lib "PyStr d" "set_verbosity lib INFO w"] by blast
next
  assume u: "d \<notin> set (locked disk)"
  let ?w' = "snd (remove_tree local_library (PyStr d) (set_verbosity local_library INFO disk))"
  from train_and_evaluate_run_ex [OF assms, of local_library disk] obtain model tspec espec where
    r: "train_and_evaluate local_library params disk =
       estimator_train_and_evaluate local_library model tspec espec ?w'"
    by blast
  have g: "d \<notin> set (dirs ?w')"
    using u by (simp add: local_library_def)
  have "rmtree local_library (PyStr d) True (set_verbosity local_library INFO disk) = Inr ?w'"
    by (rule rmtree_ignore_errors)
  with r g show "\<exists>model tspec espec w'.
                rmtree local_library (PyStr d) True (set_verbosity local_library INFO disk)
                  = Inr w'
              \<and> d \<notin> set (dirs w')
              \<and> train_and_evaluate local_library params disk =
                  estimator_train_and_evaluate local_library model tspec espec w'"
    by blast
qed

text \<open>
  The theorem at the parameters of the local run, on a disk where the output directory
  is left from an earlier run: the deletion removes it and the training starts without
  it. On a disk without the output directory the deletion meets an error, does not
  raise, and leaves the disk as it was.
\<close>

theorem output_dir_deletion_before_training_witness:
  "local_params ''output_dir'' = Some (PyStr ''taxi_trained'')
   \<and> ''taxi_trained'' \<noteq> []
   \<and> local_params ''train_data_path'' = Some (PyStr ''taxi-train.csv'')
   \<and> local_params ''eval_data_path'' = Some (PyStr ''taxi-valid.csv'')
   \<and> local_params ''train_steps'' = Some (PyInt 1)
   \<and> (0::int) < 1
   \<and> ''taxi_trained'' \<in> set (dirs stale_disk)
   \<and> ''taxi_trained'' \<notin> set (locked stale_disk)
   \<and> (\<exists>model tspec espec w'.
           rmtree local_library (PyStr ''taxi_trained'') True
             (set_verbosity local_library INFO stale_disk) = Inr w'
         \<and> ''taxi_trained'' \<notin> set (dirs w')
         \<and> train_and_evaluate local_library local_params stale_disk =
             estimator_train_and_evaluate local_library model tspec espec w')
   \<and> remove_tree local_library (PyStr ''taxi_trained'')
        (set_verbosity local_library INFO stale_disk)
       = (None, stale_disk\<lparr>dirs := [], verbosity := INFO\<rparr>)
   \<and> map_sum id at_start (train_and_evaluate local_library local_params stale_disk) = Inr []
   \<and> (\<exists>model tspec espec err w'.
           create_model (PyStr ''taxi_trained'') (PyInt 1) = Inr model
         \<and> remove_tree local_library (PyStr ''taxi_trained'')
              (set_verbosity local_library INFO fresh_disk) = (err, w')
         \<and> rmtree local_library (PyStr ''taxi_trained'') True
              (set_verbosity local_library INFO fresh_disk) = Inr w'
         \<and> train_and_evaluate local_library local_params fresh_disk =
             estimator_train_and_evaluate local_library model tspec espec w')
   \<and> remove_tree local_library (PyStr ''taxi_trained'')
        (set_verbosity local_library INFO fresh_disk)
       = (Some (OSError ''No such file or directory''), fresh_disk\<lparr>verbosity := INFO\<rparr>)
   \<and> rmtree local_library (PyStr ''taxi_trained'') True
        (set_verbosity local_library INFO fresh_disk) = Inr (fresh_disk\<lparr>verbosity := INFO\<rparr>)"
proof -
  have 1: "local_params ''output_dir'' = Some (PyStr ''taxi_trained'')"
    and 2: "local_params ''train_data_path'' = Some (PyStr ''taxi-train.csv'')"
    and 3: "local_params ''eval_data_path'' = Some (PyStr ''taxi-valid.csv'')"
    and 4: "local_params ''train_steps'' = Some (PyInt 1)"
    and 5: "(0::int) < 1"
    and 0: "''taxi_trained'' \<noteq> []"
    by (simp_all add: local_params_def)
  have s: "''taxi_trained'' \<in> set (dirs stale_disk)"
    and u: "''taxi_trained'' \<notin> set (locked stale_disk)"
    by (simp_all add: stale_disk_def)
  have 6: "remove_tree local_library (PyStr ''taxi_trained'')
        (set_verbosity local_library INFO fresh_disk)
       = (Some (OSError ''No such file or directory''), fresh_disk\<lparr>verbosity := INFO\<rparr>)"
    by (simp add: local_library_def fresh_disk_def)
  have 7: "rmtree local_library (PyStr ''taxi_trained'') True
        (set_verbosity local_library INFO fresh_disk) = Inr (fresh_disk\<lparr>verbosity := INFO\<rparr>)"
    by (simp add: rmtree_def local_library_def fresh_disk_def)
  have 8: "remove_tree local_library (PyStr ''taxi_trained'')
        (set_verbosity local_library INFO stale_disk)
       = (None, stale_disk\<lparr>dirs := [], verbosity := INFO\<rparr>)"
    by (simp add: local_library_def stale_disk_def)
  have 9: "map_sum id at_start (train_and_evaluate local_library local_params stale_disk) = Inr []"
    by (simp add: run_simps local_params_def stale_disk_def)
  note t = output_dir_deletion_before_training
    [OF 1 0 2 3 4 5, where lib = local_library and w = fresh_disk and disk = stale_disk]
  from t have a: "\<exists>model tspec espec err w'.
           create_model (PyStr ''taxi_trained'') (PyInt 1) = Inr model
         \<and> remove_tree local_library (PyStr ''taxi_trained'')
              (set_verbosity local_library INFO fresh_disk) = (err, w')
         \<and> rmtree local_library (PyStr ''taxi_trained'') True
              (set_verbosity local_library INFO fresh_disk) = Inr w'
         \<and> train_and_evaluate local_library local_params fresh_disk =
             estimator_train_and_evaluate local_library model tspec espec w'"
    by (rule conjunct1)
  from t u have b: "\<exists>model tspec espec w'.
           rmtree local_library (PyStr ''taxi_trained'') True
             (set_verbosity local_library INFO stale_disk) = Inr w'
         \<and> ''taxi_trained'' \<notin> set (dirs w')
         \<and> train_and_evaluate local_library local_params stale_disk =
             estimator_train_and_evaluate local_library model tspec espec w'"
    by (elim conjE impE)
  show ?thesis
    by (intro conjI 1 0 2 3 4 5 s u b 8 9 a 6 7)
qed

subsection \<open>task.py\<close>

lemma parser_dests:
  "map dest parser =
     [''train_data_path'', ''train_steps'', ''eval_data_path'', ''output_dir'', ''job_dir'']"
  by (simp add: parser_def add_argument_def)

lemma parser_options:
  "map option_string parser =
     [''--train_data_path'', ''--train_steps'', ''--eval_data_path'', ''--output_dir'',
      ''--job-dir'']"
  by (simp add: parser_def add_argument_def)

lemma parser_values:
  "map (arg_value alib occ) parser =
     [arg_value alib occ (add_argument ''--train_data_path'' True as_str PyNone),
      arg_value alib occ (add_argument ''--train_steps'' False as_int (PyInt 1000)),
      arg_value alib occ (add_argument ''--eval_data_path'' True as_str PyNone),
      arg_value alib occ (add_argument ''--output_dir'' True as_str PyNone),
      arg_value alib occ (add_argument ''--job-dir'' False as_str PyNone)]"
  by (simp add: parser_def)

lemma arg_value_error: "arg_value alib occ a = Inl e \<Longrightarrow> e = SystemExit 2"
  unfolding arg_value_def convert_def
  by (auto split: list.splits if_splits arg_type.splits option.splits)

lemma arg_value_absent:
  assumes "opt \<notin> fst ` set occ" and "option_string a = opt"
  shows "arg_value alib occ a =
           (if required a then Inl (SystemExit 2) else Inr (default_value a))"
proof -
  from assms have "filter (\<lambda>(opt, v). opt = option_string a) occ = []"
    by (auto simp: filter_empty_conv image_iff)
  then show ?thesis by (simp add: arg_value_def)
qed

lemma job_dir_value:
  "\<exists>v. arg_value alib occ (add_argument ''--job-dir'' False as_str PyNone) = Inr v"
  by (simp add: arg_value_def add_argument_def convert_def split: list.splits)

lemma parse_args_Inr:
  assumes "parse_args alib parser argv = Inr args"
  shows "\<exists>occ vs. scan_args alib (map option_string parser) argv = Inr occ
           \<and> map (arg_value alib occ) parser = map Inr vs
           \<and> args = dict (zip (map dest parser) vs)"
  using assms unfolding parse_args_def
  by (auto split: sum.splits dest: collect_Inr)

lemma parse_args_keys:
  assumes "parse_args alib parser argv = Inr args"
  shows "dom args = {''train_data_path'', ''train_steps'', ''eval_data_path'', ''output_dir'',
                     ''job_dir''}"
proof -
  from parse_args_Inr [OF assms] obtain occ vs where
    m: "map (arg_value alib occ) parser = map Inr vs"
    and a: "args = dict (zip (map dest parser) vs)"
    by blast
  from m have l: "length vs = length (map dest parser)"
    by (metis length_map)
  have "dom args = fst ` set (zip (map dest parser) vs)"
    unfolding a by (rule dom_dict)
  also have "\<dots> = set (map fst (zip (map dest parser) vs))" by simp
  also have "\<dots> = set (map dest parser)" using l by (simp only: map_fst_zip)
  finally show ?thesis by (simp only: parser_dests) auto
qed

lemma parse_args_required_absent:
  assumes "scan_args alib (map option_string parser) argv = Inr occ"
    and "opt \<in> set [''--train_data_path'', ''--eval_data_path'', ''--output_dir'']"
    and "opt \<notin> fst ` set occ"
  shows "parse_args alib parser argv = Inl (SystemExit 2)"
proof -
  from assms(2,3) have "Inl (SystemExit 2) \<in> set (map (arg_value alib occ) parser)"
    unfolding parser_values
    by (auto simp: arg_value_absent [of _ occ] add_argument_def)
  then obtain e where c: "collect (map (arg_value alib occ) parser) = Inl e"
    using collect_has_error by blast
  then have "Inl e \<in> set (map (arg_value alib occ) parser)"
    by (rule collect_Inl)
  then have "e = SystemExit 2"
    using arg_value_error by fastforce
  with c show ?thesis
    by (simp add: parse_args_def assms(1))
qed

lemma parse_args_default_steps:
  assumes "scan_args alib (map option_string parser) argv = Inr occ"
    and "''--train_steps'' \<notin> fst ` set occ"
    and "parse_args alib parser argv = Inr args"
  shows "args ''train_steps'' = Some (PyInt 1000)"
proof -
  from parse_args_Inr [OF assms(3)] assms(1) obtain vs where
    m: "map (arg_value alib occ) parser = map Inr vs"
    and a: "args = dict (zip (map dest parser) vs)"
    by auto
  have "length (map (arg_value alib occ) parser) = 5"
    by (simp add: parser_def)
  with m have "length vs = 5" by simp
  then obtain v1 v2 v3 v4 v5 where vs: "vs = [v1, v2, v3, v4, v5]"
    by (auto simp: length_Suc_conv eval_nat_numeral)
  have "arg_value alib occ (add_argument ''--train_steps'' False as_int (PyInt 1000))
          = Inr (PyInt 1000)"
    using assms(2) by (simp add: arg_value_absent [of "''--train_steps''"] add_argument_def)
  with m have "v2 = PyInt 1000"
    unfolding parser_values vs by simp
  then show ?thesis
    unfolding a parser_dests vs by (simp add: dict_def)
qed

lemma local_parse: "parse_args plain_argparse parser local_argv = Inr local_params"
  unfolding parse_args_def parser_options parser_dests
  by (simp add: plain_argparse_def local_argv_def parser_def add_argument_def arg_value_def
      convert_def decimal_int_def decimal_nat_def digit_def dict_def local_params_def fun_eq_iff)

text \<open>
  Claim C7. The entry point parses the command line into a flat dictionary with exactly
  the keys \<open>train_data_path\<close>, \<open>train_steps\<close>, \<open>eval_data_path\<close>, \<open>output_dir\<close> and
  \<open>job_dir\<close>, and passes that dictionary, unchanged, as the one argument of
  \<open>train_and_evaluate\<close>. \<open>train_and_evaluate\<close> reads \<open>output_dir\<close>, \<open>train_data_path\<close>,
  \<open>eval_data_path\<close> and \<open>train_steps\<close> from it: its result is the same on two
  dictionaries that agree on these four keys, and a dictionary that lacks one of them
  is a \<open>KeyError\<close>.
\<close>

theorem main_passes_parsed_arguments:
  assumes "parse_args alib parser argv = Inr args"
  shows "dom args = {''train_data_path'', ''train_steps'', ''eval_data_path'', ''output_dir'',
                     ''job_dir''}
       \<and> main alib lib argv w = train_and_evaluate lib args w
       \<and> (\<forall>q. q ''output_dir'' = args ''output_dir''
              \<and> q ''train_data_path'' = args ''train_data_path''
              \<and> q ''eval_data_path'' = args ''eval_data_path''
              \<and> q ''train_steps'' = args ''train_steps''
              \<longrightarrow> train_and_evaluate lib q w = train_and_evaluate lib args w)
       \<and> (\<forall>q k. k \<in> set [''output_dir'', ''train_data_path'', ''eval_data_path'', ''train_steps'']
              \<and> q k = None
              \<longrightarrow> (\<exists>k'. train_and_evaluate lib q w = Inl (KeyError k') \<and> q k' = None))"
proof (intro conjI allI impI)
  show "dom args = {''train_data_path'', ''train_steps'', ''eval_data_path'', ''output_dir'',
                    ''job_dir''}"
    by (rule parse_args_keys [OF assms])
  show "main alib lib argv w = train_and_evaluate lib args w"
    by (simp add: main_def assms)
next
  fix q :: "string \<rightharpoonup> pyval"
  assume "q ''output_dir'' = args ''output_dir''
              \<and> q ''train_data_path'' = args ''train_data_path''
              \<and> q ''eval_data_path'' = args ''eval_data_path''
              \<and> q ''train_steps'' = args ''train_steps''"
  then show "train_and_evaluate lib q w = train_and_evaluate lib args w"
    by (intro train_and_evaluate_reads_four) simp_all
next
  fix q :: "string \<rightharpoonup> pyval" and k
  assume "k \<in> set [''output_dir'', ''train_data_path'', ''eval_data_path'', ''train_steps'']
              \<and> q k = None"
  then show "\<exists>k'. train_and_evaluate lib q w = Inl (KeyError k') \<and> q k' = None"
    using train_and_evaluate_missing_key [of k q lib w] by blast
qed

text \<open>
  The theorem at the command line of the notebook's local run: the parsed dictionary has
  the five keys, another value for \<open>job_dir\<close> changes nothing, and without \<open>train_steps\<close>
  the call is a \<open>KeyError\<close>.
\<close>

theorem main_passes_parsed_arguments_witness:
  "parse_args plain_argparse parser local_argv = Inr local_params
   \<and> dom local_params = {''train_data_path'', ''train_steps'', ''eval_data_path'', ''output_dir'',
                          ''job_dir''}
   \<and> main plain_argparse local_library local_argv fresh_disk
       = train_and_evaluate local_library local_params fresh_disk
   \<and> train_and_evaluate local_library
        (local_params(''job_dir'' \<mapsto> PyStr ''gs://bucket/taxifare'')) fresh_disk
       = train_and_evaluate local_library local_params fresh_disk
   \<and> (\<exists>k'. train_and_evaluate local_library (local_params(''train_steps'' := None)) fresh_disk
              = Inl (KeyError k'))"
proof -
  note t = main_passes_parsed_arguments [OF local_parse, of local_library fresh_disk]
  from t have a: "\<forall>q. q ''output_dir'' = local_params ''output_dir''
              \<and> q ''train_data_path'' = local_params ''train_data_path''
              \<and> q ''eval_data_path'' = local_params ''eval_data_path''
              \<and> q ''train_steps'' = local_params ''train_steps''
              \<longrightarrow> train_and_evaluate local_library q fresh_disk
                  = train_and_evaluate local_library local_params fresh_disk"
    by blast
  from t have b: "\<forall>q k. k \<in> set [''output_dir'', ''train_data_path'', ''eval_data_path'', ''train_steps'']
              \<and> q k = None
              \<longrightarrow> (\<exists>k'. train_and_evaluate local_library q fresh_disk = Inl (KeyError k')
                    \<and> q k' = None)"
    by blast
  from a [rule_format, of "local_params(''job_dir'' \<mapsto> PyStr ''gs://bucket/taxifare'')"]
  have 1: "train_and_evaluate local_library
        (local_params(''job_dir'' \<mapsto> PyStr ''gs://bucket/taxifare'')) fresh_disk
       = train_and_evaluate local_library local_params fresh_disk"
    by simp
  from b [rule_format, of "''train_steps''" "local_params(''train_steps'' := None)"]
  have 2: "\<exists>k'. train_and_evaluate local_library (local_params(''train_steps'' := None)) fresh_disk
              = Inl (KeyError k')"
    by auto
  from t have 3: "dom local_params = {''train_data_path'', ''train_steps'', ''eval_data_path'',
      ''output_dir'', ''job_dir''}"
    by (rule conjunct1)
  from t have 4: "main plain_argparse local_library local_argv fresh_disk
       = train_and_evaluate local_library local_params fresh_disk"
    by (elim conjE)
  show ?thesis
    by (intro conjI local_parse 1 2 3 4)
qed

text \<open>
  Claim C9. Command-line parsing fails, with the exit status 2 of a rejected
  invocation, whenever one of \<open>--train_data_path\<close>, \<open>--eval_data_path\<close> and
  \<open>--output_dir\<close> is absent from the command line. When \<open>--train_steps\<close> is absent, the
  parsed \<open>train_steps\<close> is the integer 1000. \<open>--job-dir\<close> is an argument of the parser,
  its value is never an error, present or absent, and \<open>train_and_evaluate\<close> never reads
  it: its result is the same whatever \<open>job_dir\<close> is, or without it.
\<close>

theorem command_line_requirements:
  assumes "scan_args alib (map option_string parser) argv = Inr occ"
  shows "(opt \<in> set [''--train_data_path'', ''--eval_data_path'', ''--output_dir'']
            \<and> opt \<notin> fst ` set occ
          \<longrightarrow> parse_args alib parser argv = Inl (SystemExit 2))
       \<and> (''--train_steps'' \<notin> fst ` set occ \<and> parse_args alib parser argv = Inr args
          \<longrightarrow> args ''train_steps'' = Some (PyInt 1000))
       \<and> parser ! 4 = add_argument ''--job-dir'' False as_str PyNone
       \<and> (\<exists>v. arg_value alib occ (parser ! 4) = Inr v)
       \<and> train_and_evaluate lib (params(''job_dir'' := x)) w = train_and_evaluate lib params w"
proof (intro conjI impI)
  assume "opt \<in> set [''--train_data_path'', ''--eval_data_path'', ''--output_dir'']
            \<and> opt \<notin> fst ` set occ"
  then show "parse_args alib parser argv = Inl (SystemExit 2)"
    using parse_args_required_absent [OF assms] by blast
next
  assume "''--train_steps'' \<notin> fst ` set occ \<and> parse_args alib parser argv = Inr args"
  then show "args ''train_steps'' = Some (PyInt 1000)"
    using parse_args_default_steps [OF assms] by blast
next
  show p4: "parser ! 4 = add_argument ''--job-dir'' False as_str PyNone"
    by (simp add: parser_def)
  show "\<exists>v. arg_value alib occ (parser ! 4) = Inr v"
    unfolding p4 by (rule job_dir_value)
  show "train_and_evaluate lib (params(''job_dir'' := x)) w = train_and_evaluate lib params w"
    by (rule train_and_evaluate_reads_four) simp_all
qed

text \<open>
  The theorem at two command lines: one with \<open>--train_steps\<close> only, which is rejected,
  and one with the three paths and \<open>--job-dir\<close> but no \<open>--train_steps\<close>, which parses
  with 1000 steps.
\<close>

theorem command_line_requirements_witness:
  "scan_args plain_argparse (map option_string parser) [''--train_steps=5'']
     = Inr [(''--train_steps'', ''5'')]
   \<and> parse_args plain_argparse parser [''--train_steps=5''] = Inl (SystemExit 2)
   \<and> scan_args plain_argparse (map option_string parser)
        [''--train_data_path=a.csv'', ''--eval_data_path=b.csv'', ''--output_dir=out'',
         ''--job-dir=gs://bucket/taxifare'']
     = Inr [(''--train_data_path'', ''a.csv''), (''--eval_data_path'', ''b.csv''),
            (''--output_dir'', ''out''), (''--job-dir'', ''gs://bucket/taxifare'')]
   \<and> parse_args plain_argparse parser
        [''--train_data_path=a.csv'', ''--eval_data_path=b.csv'', ''--output_dir=out'',
         ''--job-dir=gs://bucket/taxifare'']
     = Inr [''train_data_path'' \<mapsto> PyStr ''a.csv'', ''train_steps'' \<mapsto> PyInt 1000,
            ''eval_data_path'' \<mapsto> PyStr ''b.csv'', ''output_dir'' \<mapsto> PyStr ''out'',
            ''job_dir'' \<mapsto> PyStr ''gs://bucket/taxifare'']"
proof -
  let ?argv = "[''--train_data_path=a.csv'', ''--eval_data_path=b.csv'', ''--output_dir=out'',
         ''--job-dir=gs://bucket/taxifare'']"
  let ?args = "[''train_data_path'' \<mapsto> PyStr ''a.csv'', ''train_steps'' \<mapsto> PyInt 1000,
            ''eval_data_path'' \<mapsto> PyStr ''b.csv'', ''output_dir'' \<mapsto> PyStr ''out'',
            ''job_dir'' \<mapsto> PyStr ''gs://bucket/taxifare'']"
  have s1: "scan_args plain_argparse (map option_string parser) [''--train_steps=5'']
     = Inr [(''--train_steps'', ''5'')]"
    unfolding parser_options by (simp add: plain_argparse_def)
  have s2: "scan_args plain_argparse (map option_string parser) ?argv
     = Inr [(''--train_data_path'', ''a.csv''), (''--eval_data_path'', ''b.csv''),
            (''--output_dir'', ''out''), (''--job-dir'', ''gs://bucket/taxifare'')]"
    unfolding parser_options by (simp add: plain_argparse_def)
  have p2: "parse_args plain_argparse parser ?argv = Inr ?args"
    unfolding parse_args_def s2 parser_dests
    by (simp add: plain_argparse_def parser_def add_argument_def arg_value_def
      convert_def dict_def fun_eq_iff)
  from command_line_requirements [OF s1, where opt = "''--output_dir''" and args = ?args
      and lib = local_library and params = local_params and x = "Some PyNone" and w = fresh_disk]
  have 1: "parse_args plain_argparse parser [''--train_steps=5''] = Inl (SystemExit 2)"
    by simp
  from command_line_requirements [OF s2, where opt = "''--output_dir''" and args = ?args
      and lib = local_library and params = local_params and x = "Some PyNone" and w = fresh_disk] p2
  have 2: "?args ''train_steps'' = Some (PyInt 1000)"
    by simp
  show ?thesis
    by (intro conjI s1 1 s2 p2)
qed

end
